theory Spec2Isabelle
  imports Complex_Main
begin

section \<open>JavaScript numbers\<close>

text \<open>
  The beach simulation computes with JavaScript numbers. They are modelled as the real
  numbers plus the value \<open>NaN\<close>: rounding and overflow of IEEE doubles are left out, the
  operations that leave the real numbers are kept (the square root and the fractional
  power of a negative number, a division by zero), since the program goes on computing
  with their result.

  Arithmetic with \<open>NaN\<close> gives \<open>NaN\<close>, and every comparison with \<open>NaN\<close> is false, as in
  JavaScript. A division by zero gives \<open>NaN\<close> here, where JavaScript gives an infinity for
  a non-zero numerator. In this program the two agree on every result: the quotients whose
  denominator can be zero are the arguments of \<open>Math.sin\<close> and \<open>Math.cos\<close> (which are \<open>NaN\<close>
  at an infinity), the shear stress of a cell of depth \<open>-0.01\<close> (discarded by the test
  \<open>h > 0.01\<close>) and the normalised shear stress of a negative grain size (multiplied by the
  square root of a negative number).
\<close>

datatype jsnum = Num real | NaN

instantiation jsnum :: "{plus,minus,uminus,times,inverse,abs,sgn,ord}"
begin

fun plus_jsnum :: "jsnum \<Rightarrow> jsnum \<Rightarrow> jsnum" where
  "plus_jsnum (Num a) (Num b) = Num (a + b)"
| "plus_jsnum _ _ = NaN"

fun minus_jsnum :: "jsnum \<Rightarrow> jsnum \<Rightarrow> jsnum" where
  "minus_jsnum (Num a) (Num b) = Num (a - b)"
| "minus_jsnum _ _ = NaN"

fun uminus_jsnum :: "jsnum \<Rightarrow> jsnum" where
  "uminus_jsnum (Num a) = Num (- a)"
| "uminus_jsnum NaN = NaN"

fun times_jsnum :: "jsnum \<Rightarrow> jsnum \<Rightarrow> jsnum" where
  "times_jsnum (Num a) (Num b) = Num (a * b)"
| "times_jsnum _ _ = NaN"

fun divide_jsnum :: "jsnum \<Rightarrow> jsnum \<Rightarrow> jsnum" where
  "divide_jsnum (Num a) (Num b) = (if b = 0 then NaN else Num (a / b))"
| "divide_jsnum _ _ = NaN"

fun inverse_jsnum :: "jsnum \<Rightarrow> jsnum" where
  "inverse_jsnum (Num a) = (if a = 0 then NaN else Num (1 / a))"
| "inverse_jsnum NaN = NaN"

text \<open>\<open>Math.abs\<close> and \<open>Math.sign\<close>.\<close>

fun abs_jsnum :: "jsnum \<Rightarrow> jsnum" where
  "abs_jsnum (Num a) = Num \<bar>a\<bar>"
| "abs_jsnum NaN = NaN"

fun sgn_jsnum :: "jsnum \<Rightarrow> jsnum" where
  "sgn_jsnum (Num a) = Num (sgn a)"
| "sgn_jsnum NaN = NaN"

fun less_jsnum :: "jsnum \<Rightarrow> jsnum \<Rightarrow> bool" where
  "less_jsnum (Num a) (Num b) = (a < b)"
| "less_jsnum _ _ = False"

fun less_eq_jsnum :: "jsnum \<Rightarrow> jsnum \<Rightarrow> bool" where
  "less_eq_jsnum (Num a) (Num b) = (a \<le> b)"
| "less_eq_jsnum _ _ = False"

instance ..

end

fun Math_max :: "jsnum \<Rightarrow> jsnum \<Rightarrow> jsnum" where
  "Math_max (Num a) (Num b) = Num (max a b)"
| "Math_max _ _ = NaN"

fun Math_min :: "jsnum \<Rightarrow> jsnum \<Rightarrow> jsnum" where
  "Math_min (Num a) (Num b) = Num (min a b)"
| "Math_min _ _ = NaN"

fun Math_sin :: "jsnum \<Rightarrow> jsnum" where
  "Math_sin (Num a) = Num (sin a)"
| "Math_sin NaN = NaN"

fun Math_cos :: "jsnum \<Rightarrow> jsnum" where
  "Math_cos (Num a) = Num (cos a)"
| "Math_cos NaN = NaN"

fun Math_sqrt :: "jsnum \<Rightarrow> jsnum" where
  "Math_sqrt (Num a) = (if a < 0 then NaN else Num (sqrt a))"
| "Math_sqrt NaN = NaN"

text \<open>
  \<open>Math.pow\<close> for a positive exponent that is not an integer (the program's only call has
  the exponent \<open>1.5\<close>): the power of a negative base is \<open>NaN\<close>.
\<close>

fun Math_pow :: "jsnum \<Rightarrow> jsnum \<Rightarrow> jsnum" where
  "Math_pow (Num a) (Num b) = (if a < 0 then NaN else Num (a powr b))"
| "Math_pow _ _ = NaN"

definition Math_PI :: jsnum where
  "Math_PI = Num pi"

text \<open>A value is numeric when it is not \<open>NaN\<close>.\<close>

fun numeric :: "jsnum \<Rightarrow> bool" where
  "numeric (Num a) = True"
| "numeric NaN = False"

text \<open>
  The comparison \<open>===\<close> of two numbers (\<open>==\<close> agrees with it on numbers): it is false
  when either side is \<open>NaN\<close>, also when both are.
\<close>

fun strictEquals :: "jsnum \<Rightarrow> jsnum \<Rightarrow> bool" where
  "strictEquals (Num a) (Num b) = (a = b)"
| "strictEquals _ _ = False"

section \<open>Parameters, forcing and transport\<close>

record SimulationParams =
  tidalRange :: jsnum
  tidalPeriod :: jsnum
  beachSlope :: jsnum
  grainSize :: jsnum
  waveHeight :: jsnum
  wavePeriod :: jsnum
  simulationSpeed :: jsnum
  sedimentSupply :: jsnum

definition gridSize :: nat where
  "gridSize = 200"

definition domainLength :: jsnum where
  "domainLength = Num 1000"

definition dx :: jsnum where
  "dx = domainLength / Num (real gridSize)"

definition dt :: jsnum where
  "dt = Num 0.1"

definition getTidalLevel :: "SimulationParams \<Rightarrow> jsnum \<Rightarrow> jsnum" where
  "getTidalLevel params time =
     (tidalRange params / Num 2) *
       Math_sin (Num 2 * Math_PI * time / (tidalPeriod params * Num 3600))"

definition getWaveLevel :: "SimulationParams \<Rightarrow> jsnum \<Rightarrow> jsnum \<Rightarrow> jsnum" where
  "getWaveLevel params time x =
     waveHeight params *
       Math_sin (Num 2 * Math_PI * time / wavePeriod params - x / Num 100)"

text \<open>
  The wave forcing term of the momentum equation, written inline in \<open>updateSimulation\<close>
  in the source.
\<close>

definition waveForce :: "SimulationParams \<Rightarrow> jsnum \<Rightarrow> jsnum \<Rightarrow> jsnum" where
  "waveForce params currentTime x =
     waveHeight params * Num 0.2 *
       Math_cos (Num 2 * Math_PI * currentTime / wavePeriod params - x / Num 100)"

definition calculateSedimentTransport ::
    "SimulationParams \<Rightarrow> jsnum \<Rightarrow> jsnum \<Rightarrow> jsnum \<Rightarrow> jsnum" where
  "calculateSedimentTransport params u h sedimentThickness =
     (let g = Num 9.81;
          rho = Num 1000;
          rho_s = Num 2650;
          d50 = grainSize params / Num 1000;
          tau = rho * g * h * \<bar>u\<bar> * u / (h + Num 0.01);
          tau_crit = Num 0.03 * (rho_s - rho) * g * d50;
          availabilityFactor = Math_min (Num 1) (sedimentThickness / Num 0.02)
      in if \<bar>tau\<bar> > tau_crit \<and> h > Num 0.01 \<and> sedimentThickness > Num 0.001 then
           (let tau_star = \<bar>tau\<bar> / (tau_crit + Num 0.0001);
                transport = Num 5.0 * Math_sqrt (g * d50) * d50 *
                  Math_pow (Math_min (tau_star - Num 1) (Num 8)) (Num 1.5) *
                  sgn u * availabilityFactor
            in Math_max (Num (- 0.02)) (Math_min (Num 0.02) transport))
         else Num 0)"

section \<open>The grid\<close>

record GridPoint =
  x :: jsnum
  h :: jsnum
  u :: jsnum
  zb :: jsnum
  qs :: jsnum
  sedimentThickness :: jsnum
  bedrockLevel :: jsnum
  initialSedimentThickness :: jsnum
  cumulativeChange :: jsnum

text \<open>
  The grid a freshly mounted simulation starts from (the initialiser of the \<open>grid\<close>
  state): the loop pushes one point per index.
\<close>

definition initialGrid :: "SimulationParams \<Rightarrow> GridPoint list" where
  "initialGrid params =
     fold (\<lambda>i initialGrid.
        let x = Num (real i) * dx;
            bedrockLevel =
              (if x < Num 300 then Num (- 8) + x * Num 0.01
               else if x < Num 600 then Num (- 5) + (x - Num 300) * beachSlope params
               else Num (- 5) + Num 300 * beachSlope params +
                    (x - Num 600) * beachSlope params * Num 0.5);
            sedimentThickness =
              (if x < Num 200 then Num 0.2 * sedimentSupply params
               else if x < Num 400 then Num 0.8 * sedimentSupply params
               else if x < Num 700 then Num 1.5 * sedimentSupply params
               else Num 1.0 * sedimentSupply params);
            zb = bedrockLevel + sedimentThickness
        in initialGrid @
           [\<lparr>x = x, h = Math_max (Num 0) (- zb), u = Num 0, zb = zb, qs = Num 0,
             sedimentThickness = sedimentThickness, bedrockLevel = bedrockLevel,
             initialSedimentThickness = sedimentThickness, cumulativeChange = Num 0\<rparr>])
       [0..<gridSize] []"

section \<open>One simulation step\<close>

text \<open>
  \<open>updateSimulation\<close> copies the array of points and then runs its loops over the copy,
  writing the fields of the points in place. The loops are kept as they are written, each
  as a fold over its index range; they are named after the comments that head them in
  the source. The points of a grid are taken to be distinct objects, as the creation loop
  makes them.
\<close>

definition updateWaterLevels ::
    "SimulationParams \<Rightarrow> jsnum \<Rightarrow> GridPoint list \<Rightarrow> GridPoint list" where
  "updateWaterLevels params currentTime newGrid =
     (let tideLevel = getTidalLevel params currentTime
      in fold (\<lambda>i newGrid.
           let waveLevel = getWaveLevel params currentTime (x (newGrid ! i));
               totalWaterLevel = tideLevel + waveLevel
           in newGrid[i := (newGrid ! i)
                \<lparr>h := Math_max (Num 0) (totalWaterLevel - zb (newGrid ! i))\<rparr>])
         [0..<gridSize] newGrid)"

definition shallowWater ::
    "SimulationParams \<Rightarrow> jsnum \<Rightarrow> GridPoint list \<Rightarrow> jsnum list" where
  "shallowWater params currentTime newGrid =
     (let newVelocities = replicate gridSize (Num 0)
      in fold (\<lambda>i newVelocities.
           if h (newGrid ! i) > Num 0.05 then
             (let dh_dx = (h (newGrid ! (i + 1)) - h (newGrid ! (i - 1))) / (Num 2 * dx);
                  friction = Num 0.02 * u (newGrid ! i) * \<bar>u (newGrid ! i)\<bar> /
                             (h (newGrid ! i) + Num 0.01);
                  waveForce = waveHeight params * Num 0.2 *
                    Math_cos (Num 2 * Math_PI * currentTime / wavePeriod params -
                              x (newGrid ! i) / Num 100);
                  newVelocities = newVelocities[i :=
                    u (newGrid ! i) - dt * (Num 9.81 * dh_dx + friction - waveForce)]
              in newVelocities[i :=
                   Math_max (Num (- 2.0)) (Math_min (Num 2.0) (newVelocities ! i))])
           else newVelocities[i := Num 0])
         [1..<gridSize - 1] newVelocities)"

definition updateVelocities ::
    "SimulationParams \<Rightarrow> jsnum list \<Rightarrow> GridPoint list \<Rightarrow> GridPoint list" where
  "updateVelocities params newVelocities newGrid =
     (let newGrid = fold (\<lambda>i newGrid.
            let newGrid = newGrid[i := (newGrid ! i)\<lparr>u := newVelocities ! i\<rparr>]
            in newGrid[i := (newGrid ! i)
                 \<lparr>qs := calculateSedimentTransport params (u (newGrid ! i))
                          (h (newGrid ! i)) (sedimentThickness (newGrid ! i))\<rparr>])
          [0..<gridSize] newGrid;
          newGrid = newGrid[0 := (newGrid ! 0)\<lparr>u := Num 0\<rparr>]
      in newGrid[gridSize - 1 := (newGrid ! (gridSize - 1))\<lparr>u := Num 0\<rparr>])"

definition calculateBedChanges :: "SimulationParams \<Rightarrow> GridPoint list \<Rightarrow> jsnum list" where
  "calculateBedChanges params newGrid =
     (let porosity = Num 0.2;
          maxErosionRate = Num 0.1;
          bedChanges = replicate gridSize (Num 0)
      in fold (\<lambda>i bedChanges.
           let dqs_dx = (qs (newGrid ! (i + 1)) - qs (newGrid ! (i - 1))) / (Num 2 * dx);
               dzb_dt = - dqs_dx / (Num 1 - porosity);
               bedChange = dzb_dt * dt * simulationSpeed params * Num 10.0;
               bedChange = Math_max (- maxErosionRate) (Math_min maxErosionRate bedChange)
           in bedChanges[i := bedChange])
         [1..<gridSize - 1] bedChanges)"

definition applyBedChanges :: "jsnum list \<Rightarrow> GridPoint list \<Rightarrow> GridPoint list" where
  "applyBedChanges bedChanges newGrid =
     fold (\<lambda>i newGrid.
        let rawChange = bedChanges ! i;
            oldThickness = sedimentThickness (newGrid ! i);
            newSedimentThickness = Math_max (Num 0) (oldThickness + rawChange);
            newGrid = newGrid[i := (newGrid ! i)
              \<lparr>sedimentThickness := newSedimentThickness\<rparr>];
            newGrid = newGrid[i := (newGrid ! i)
              \<lparr>cumulativeChange :=
                 cumulativeChange (newGrid ! i) + (newSedimentThickness - oldThickness)\<rparr>];
            newGrid = newGrid[i := (newGrid ! i)
              \<lparr>zb := bedrockLevel (newGrid ! i) + sedimentThickness (newGrid ! i)\<rparr>];
            newGrid =
              (if x (newGrid ! i) < Num 300
               then newGrid[i := (newGrid ! i)
                 \<lparr>sedimentThickness := Math_min (Num 8.0) (sedimentThickness (newGrid ! i))\<rparr>]
               else newGrid[i := (newGrid ! i)
                 \<lparr>sedimentThickness := Math_min (Num 12.0) (sedimentThickness (newGrid ! i))\<rparr>])
        in newGrid[i := (newGrid ! i)
             \<lparr>zb := bedrockLevel (newGrid ! i) + sedimentThickness (newGrid ! i)\<rparr>])
      [2..<gridSize - 2] newGrid"

definition fixedBoundary :: "GridPoint list \<Rightarrow> GridPoint list" where
  "fixedBoundary newGrid =
     (let newGrid = newGrid[0 := (newGrid ! 0)
            \<lparr>sedimentThickness := sedimentThickness (newGrid ! 1)\<rparr>];
          newGrid = newGrid[0 := (newGrid ! 0)\<lparr>zb := zb (newGrid ! 1)\<rparr>];
          newGrid = newGrid[gridSize - 1 := (newGrid ! (gridSize - 1))
            \<lparr>sedimentThickness := sedimentThickness (newGrid ! (gridSize - 2))\<rparr>]
      in newGrid[gridSize - 1 := (newGrid ! (gridSize - 1))
           \<lparr>zb := zb (newGrid ! (gridSize - 2))\<rparr>])"

text \<open>
  The step. A grid with fewer than \<open>gridSize\<close> points makes the first loop read a field
  of \<open>undefined\<close>, which throws: the step has no result then.
\<close>

definition updateSimulation ::
    "SimulationParams \<Rightarrow> GridPoint list \<Rightarrow> jsnum \<Rightarrow> GridPoint list option" where
  "updateSimulation params currentGrid currentTime =
     (if length currentGrid < gridSize then None
      else
        let newGrid = currentGrid;
            newGrid = updateWaterLevels params currentTime newGrid;
            newVelocities = shallowWater params currentTime newGrid;
            newGrid = updateVelocities params newVelocities newGrid;
            bedChanges = calculateBedChanges params newGrid;
            newGrid = applyBedChanges bedChanges newGrid;
            newGrid = fixedBoundary newGrid
        in Some newGrid)"

section \<open>The driver\<close>

record Simulation =
  isRunning :: bool
  timeRef :: jsnum
  grid :: "GridPoint list"

text \<open>
  One animation frame advances the clock and replaces the grid by the result of the
  step at the new time.
\<close>

definition animate :: "SimulationParams \<Rightarrow> Simulation \<Rightarrow> Simulation option" where
  "animate params sim =
     (let sim = sim\<lparr>timeRef := timeRef sim + dt * simulationSpeed params\<rparr>
      in case updateSimulation params (grid sim) (timeRef sim) of
           None \<Rightarrow> None
         | Some newGrid \<Rightarrow> Some (sim\<lparr>grid := newGrid\<rparr>))"

text \<open>A run of frames, one parameter record per frame (the sliders can move between frames).\<close>

fun frames :: "SimulationParams list \<Rightarrow> Simulation \<Rightarrow> Simulation option" where
  "frames [] sim = Some sim"
| "frames (params # rest) sim =
     (case animate params sim of None \<Rightarrow> None | Some sim' \<Rightarrow> frames rest sim')"

text \<open>
  The simulation as mounted: paused, at time 0, on the initial grid. (The effect that
  re-creates the grid when the beach slope or the sediment supply changes runs the same
  loop once more after mounting, with the same result.) \<open>resetSimulation\<close> has its own
  copy of the creation loop.
\<close>

definition mount :: "SimulationParams \<Rightarrow> Simulation" where
  "mount params = \<lparr>isRunning = False, timeRef = Num 0, grid = initialGrid params\<rparr>"

definition resetSimulation :: "SimulationParams \<Rightarrow> Simulation \<Rightarrow> Simulation" where
  "resetSimulation params sim =
     (let sim = sim\<lparr>isRunning := False\<rparr>;
          sim = sim\<lparr>timeRef := Num 0\<rparr>;
          initialGrid = fold (\<lambda>i initialGrid.
            let x = Num (real i) * dx;
                bedrockLevel =
                  (if x < Num 300 then Num (- 8) + x * Num 0.01
                   else if x < Num 600 then Num (- 5) + (x - Num 300) * beachSlope params
                   else Num (- 5) + Num 300 * beachSlope params +
                        (x - Num 600) * beachSlope params * Num 0.5);
                sedimentThickness =
                  (if x < Num 200 then Num 0.2 * sedimentSupply params
                   else if x < Num 400 then Num 0.8 * sedimentSupply params
                   else if x < Num 700 then Num 1.5 * sedimentSupply params
                   else Num 1.0 * sedimentSupply params);
                zb = bedrockLevel + sedimentThickness
            in initialGrid @
               [\<lparr>x = x, h = Math_max (Num 0) (- zb), u = Num 0, zb = zb, qs = Num 0,
                 sedimentThickness = sedimentThickness, bedrockLevel = bedrockLevel,
                 initialSedimentThickness = sedimentThickness,
                 cumulativeChange = Num 0\<rparr>])
           [0..<gridSize] []
      in sim\<lparr>grid := initialGrid\<rparr>)"

section \<open>The step, point by point\<close>

text \<open>
  Every loop of the step writes the point (or the array entry) of its own index only, so
  the step can be read point by point. The definitions below name what one pass of each
  loop body does to its point, and the grids between the loops; the lemmas of the section
  on the loops show that the loops compute exactly that.
\<close>

definition waterLevelPoint :: "SimulationParams \<Rightarrow> jsnum \<Rightarrow> GridPoint \<Rightarrow> GridPoint" where
  "waterLevelPoint params currentTime c =
     c\<lparr>h := Math_max (Num 0)
       (getTidalLevel params currentTime + getWaveLevel params currentTime (x c) - zb c)\<rparr>"

definition velocityAt :: "SimulationParams \<Rightarrow> jsnum \<Rightarrow> GridPoint list \<Rightarrow> nat \<Rightarrow> jsnum" where
  "velocityAt params currentTime g i =
     (if h (g ! i) > Num 0.05
      then Math_max (Num (- 2.0)) (Math_min (Num 2.0)
             (u (g ! i) - dt *
                (Num 9.81 * ((h (g ! (i + 1)) - h (g ! (i - 1))) / (Num 2 * dx)) +
                 Num 0.02 * u (g ! i) * \<bar>u (g ! i)\<bar> / (h (g ! i) + Num 0.01) -
                 waveForce params currentTime (x (g ! i)))))
      else Num 0)"

definition transportPoint :: "SimulationParams \<Rightarrow> jsnum \<Rightarrow> GridPoint \<Rightarrow> GridPoint" where
  "transportPoint params v c =
     c\<lparr>u := v, qs := calculateSedimentTransport params v (h c) (sedimentThickness c)\<rparr>"

definition bedChangeAt :: "SimulationParams \<Rightarrow> GridPoint list \<Rightarrow> nat \<Rightarrow> jsnum" where
  "bedChangeAt params g i =
     Math_max (Num (- 0.1)) (Math_min (Num 0.1)
       (- ((qs (g ! (i + 1)) - qs (g ! (i - 1))) / (Num 2 * dx)) / (Num 1 - Num 0.2) *
        dt * simulationSpeed params * Num 10.0))"

definition regionCap :: "jsnum \<Rightarrow> jsnum" where
  "regionCap pos = (if pos < Num 300 then Num 8.0 else Num 12.0)"

definition bedPoint :: "jsnum \<Rightarrow> GridPoint \<Rightarrow> GridPoint" where
  "bedPoint rawChange c =
     (let newSedimentThickness = Math_max (Num 0) (sedimentThickness c + rawChange);
          limited = Math_min (regionCap (x c)) newSedimentThickness
      in c\<lparr>sedimentThickness := limited,
            cumulativeChange := cumulativeChange c + (newSedimentThickness - sedimentThickness c),
            zb := bedrockLevel c + limited\<rparr>)"

definition newVelocity :: "SimulationParams \<Rightarrow> jsnum \<Rightarrow> GridPoint list \<Rightarrow> nat \<Rightarrow> jsnum" where
  "newVelocity params t g k =
     (if 1 \<le> k \<and> k < gridSize - 1
      then velocityAt params t (updateWaterLevels params t g) k else Num 0)"

definition hydroGrid :: "SimulationParams \<Rightarrow> jsnum \<Rightarrow> GridPoint list \<Rightarrow> GridPoint list" where
  "hydroGrid params t g =
     (let g1 = updateWaterLevels params t g
      in updateVelocities params (shallowWater params t g1) g1)"

definition stepGrid :: "SimulationParams \<Rightarrow> jsnum \<Rightarrow> GridPoint list \<Rightarrow> GridPoint list" where
  "stepGrid params t g =
     fixedBoundary
       (applyBedChanges (calculateBedChanges params (hydroGrid params t g))
          (hydroGrid params t g))"

text \<open>
  The point that the creation loop pushes at index \<open>i\<close>.
\<close>

definition makePoint :: "SimulationParams \<Rightarrow> nat \<Rightarrow> GridPoint" where
  "makePoint params i =
     (let pos = Num (real i) * dx;
          bedrock =
            (if pos < Num 300 then Num (- 8) + pos * Num 0.01
             else if pos < Num 600 then Num (- 5) + (pos - Num 300) * beachSlope params
             else Num (- 5) + Num 300 * beachSlope params +
                  (pos - Num 600) * beachSlope params * Num 0.5);
          thickness =
            (if pos < Num 200 then Num 0.2 * sedimentSupply params
             else if pos < Num 400 then Num 0.8 * sedimentSupply params
             else if pos < Num 700 then Num 1.5 * sedimentSupply params
             else Num 1.0 * sedimentSupply params)
      in \<lparr>x = pos, h = Math_max (Num 0) (- (bedrock + thickness)), u = Num 0,
          zb = bedrock + thickness, qs = Num 0, sedimentThickness = thickness,
          bedrockLevel = bedrock, initialSedimentThickness = thickness,
          cumulativeChange = Num 0\<rparr>)"

text \<open>
  The parameters the component starts with.
\<close>

definition defaultParams :: SimulationParams where
  "defaultParams =
     \<lparr>tidalRange = Num 2.0, tidalPeriod = Num 12.0, beachSlope = Num 0.05,
      grainSize = Num 0.5, waveHeight = Num 1.0, wavePeriod = Num 8.0,
      simulationSpeed = Num 1.0, sedimentSupply = Num 1.0\<rparr>"

section \<open>Properties of grids, parameters and runs\<close>

text \<open>
  A point is consistent when its bed elevation equals its bedrock level plus its sediment
  thickness, compared as the program compares numbers: a point with a \<open>NaN\<close> among the
  three is not consistent.
\<close>

definition bedConsistent :: "GridPoint \<Rightarrow> bool" where
  "bedConsistent c \<longleftrightarrow> strictEquals (zb c) (bedrockLevel c + sedimentThickness c)"

text \<open>
  What a step keeps of the consistency of the bed. Inside the grid, points 1 and
  \<open>gridSize - 2\<close> are consistent, and so is every point between them whose bedrock level
  plus sediment thickness is a number. At the boundary, the bed elevation of a boundary
  point equals the bedrock level of its neighbour plus its own sediment thickness.
\<close>

definition interiorConsistent :: "GridPoint list \<Rightarrow> bool" where
  "interiorConsistent g \<longleftrightarrow>
     bedConsistent (g ! 1) \<and> bedConsistent (g ! (gridSize - 2)) \<and>
     (\<forall>i. 2 \<le> i \<and> i < gridSize - 2 \<and>
          numeric (bedrockLevel (g ! i) + sedimentThickness (g ! i)) \<longrightarrow>
          bedConsistent (g ! i))"

definition boundaryBed :: "GridPoint list \<Rightarrow> bool" where
  "boundaryBed g \<longleftrightarrow>
     strictEquals (zb (g ! 0)) (bedrockLevel (g ! 1) + sedimentThickness (g ! 0)) \<and>
     strictEquals (zb (g ! (gridSize - 1)))
       (bedrockLevel (g ! (gridSize - 2)) + sedimentThickness (g ! (gridSize - 1)))"

text \<open>
  What a step keeps of points 1 and \<open>gridSize - 2\<close>, what it copies into the boundary
  points, and what a whole run keeps of the four points.
\<close>

definition bufferKept :: "GridPoint list \<Rightarrow> GridPoint list \<Rightarrow> bool" where
  "bufferKept g0 g \<longleftrightarrow>
     sedimentThickness (g ! 1) = sedimentThickness (g0 ! 1) \<and>
     zb (g ! 1) = zb (g0 ! 1) \<and>
     cumulativeChange (g ! 1) = cumulativeChange (g0 ! 1) \<and>
     sedimentThickness (g ! (gridSize - 2)) = sedimentThickness (g0 ! (gridSize - 2)) \<and>
     zb (g ! (gridSize - 2)) = zb (g0 ! (gridSize - 2)) \<and>
     cumulativeChange (g ! (gridSize - 2)) = cumulativeChange (g0 ! (gridSize - 2))"

definition boundaryCopied :: "GridPoint list \<Rightarrow> GridPoint list \<Rightarrow> bool" where
  "boundaryCopied g0 g \<longleftrightarrow>
     sedimentThickness (g ! 0) = sedimentThickness (g0 ! 1) \<and>
     zb (g ! 0) = zb (g0 ! 1) \<and>
     cumulativeChange (g ! 0) = cumulativeChange (g0 ! 0) \<and>
     sedimentThickness (g ! (gridSize - 1)) = sedimentThickness (g0 ! (gridSize - 2)) \<and>
     zb (g ! (gridSize - 1)) = zb (g0 ! (gridSize - 2)) \<and>
     cumulativeChange (g ! (gridSize - 1)) = cumulativeChange (g0 ! (gridSize - 1))"

definition edgeKept :: "GridPoint list \<Rightarrow> GridPoint list \<Rightarrow> bool" where
  "edgeKept g0 g \<longleftrightarrow>
     bufferKept g0 g \<and>
     sedimentThickness (g ! 0) = sedimentThickness (g0 ! 1) \<and>
     cumulativeChange (g ! 0) = cumulativeChange (g0 ! 0) \<and>
     sedimentThickness (g ! (gridSize - 1)) = sedimentThickness (g0 ! (gridSize - 2)) \<and>
     cumulativeChange (g ! (gridSize - 1)) = cumulativeChange (g0 ! (gridSize - 1))"

text \<open>
  Parameters with which the forcing is a number: numeric values, and periods that are
  not zero. Still water has moreover no waves and no tide.
\<close>

definition forcingDefined :: "SimulationParams \<Rightarrow> bool" where
  "forcingDefined params \<longleftrightarrow>
     numeric (tidalRange params) \<and> numeric (tidalPeriod params) \<and> tidalPeriod params \<noteq> Num 0 \<and>
     numeric (waveHeight params) \<and> numeric (wavePeriod params) \<and> wavePeriod params \<noteq> Num 0 \<and>
     numeric (simulationSpeed params)"

definition stillWater :: "SimulationParams \<Rightarrow> bool" where
  "stillWater params \<longleftrightarrow>
     waveHeight params = Num 0 \<and> tidalRange params = Num 0 \<and> forcingDefined params"

text \<open>
  A simulation whose clock and positions are numbers.
\<close>

definition positioned :: "Simulation \<Rightarrow> bool" where
  "positioned sim \<longleftrightarrow>
     numeric (timeRef sim) \<and> list_all (\<lambda>c. numeric (x c)) (take gridSize (grid sim))"

text \<open>
  A well-formed grid: \<open>gridSize\<close> points at the positions \<open>i * dx\<close>, numeric bed
  elevations and velocities, and a sediment thickness between 0 and the cap of the
  region.
\<close>

definition admissible :: "GridPoint list \<Rightarrow> bool" where
  "admissible g \<longleftrightarrow>
     length g = gridSize \<and>
     (\<forall>i<gridSize.
        x (g ! i) = Num (real i) * dx \<and> numeric (zb (g ! i)) \<and> numeric (u (g ! i)) \<and>
        Num 0 \<le> sedimentThickness (g ! i) \<and>
        sedimentThickness (g ! i) \<le> regionCap (x (g ! i)))"

text \<open>
  The transport rate over the real numbers: the guard of the formula, the formula, and
  the gap between the critical shear stress and the denominator of the normalised one,
  in which the formula takes the power 1.5 of a negative number.
\<close>

definition transportActive :: "real \<Rightarrow> real \<Rightarrow> real \<Rightarrow> real \<Rightarrow> bool" where
  "transportActive gs v d s \<longleftrightarrow>
     \<bar>1000 * 9.81 * d * \<bar>v\<bar> * v / (d + 0.01)\<bar> > 0.03 * 1650 * 9.81 * (gs / 1000) \<and>
     d > 0.01 \<and> s > 0.001"

definition bedloadFormula :: "real \<Rightarrow> real \<Rightarrow> real \<Rightarrow> real \<Rightarrow> real" where
  "bedloadFormula gs v d s =
     (let d50 = gs / 1000;
          tau = 1000 * 9.81 * d * \<bar>v\<bar> * v / (d + 0.01);
          tau_crit = 0.03 * 1650 * 9.81 * d50;
          tau_star = \<bar>tau\<bar> / (tau_crit + 0.0001)
      in 5.0 * sqrt (9.81 * d50) * d50 * (min (tau_star - 1) 8) powr 1.5 * sgn v *
         min 1 (s / 0.02))"

definition shearInGap :: "real \<Rightarrow> real \<Rightarrow> real \<Rightarrow> bool" where
  "shearInGap gs v d \<longleftrightarrow>
     \<bar>1000 * 9.81 * d * \<bar>v\<bar> * v / (d + 0.01)\<bar> <
       0.03 * 1650 * 9.81 * (gs / 1000) + 0.0001"

section \<open>Concrete inputs\<close>

text \<open>
  The default parameters without waves and tide.
\<close>

definition stillWaterParams :: SimulationParams where
  "stillWaterParams = defaultParams\<lparr>waveHeight := Num 0, tidalRange := Num 0\<rparr>"

text \<open>
  Parameters that the sliders can set (tidal range 0.5 to 5, tidal period 6 to 24, beach
  slope 0.01 to 0.1, grain size 0.1 to 2, wave height 0.2 to 3, wave period 4 to 16,
  sediment supply 0.1 to 2, speed 0.1 to 3), and the time of the first frame of a run with
  them, \<open>0 + dt * simulationSpeed\<close>. In that frame the shear stress of cell 41 falls into
  the gap of the transport formula.
\<close>

definition gapParams :: SimulationParams where
  "gapParams =
     \<lparr>tidalRange = Num 3.0, tidalPeriod = Num 13, beachSlope = Num 0.09,
      grainSize = Num 0.3, waveHeight = Num 1.3, wavePeriod = Num 9,
      simulationSpeed = Num 1.7, sedimentSupply = Num 0.7\<rparr>"

definition gapTime :: jsnum where
  "gapTime = Num 0.17"

text \<open>
  The tidal level of that frame and the phase of its wave at a position, as real numbers.
\<close>

definition gapTide :: real where
  "gapTide = 1.5 * sin (2 * pi * 0.17 / (13 * 3600))"

definition gapPhase :: "real \<Rightarrow> real" where
  "gapPhase pos = 2 * pi * 0.17 / 9 - pos / 100"

text \<open>
  The Taylor polynomial of degree 12 of the cosine, used to enclose \<open>pi\<close> and the wave
  forcing of that frame between rational numbers.
\<close>

definition cosTaylor :: "real \<Rightarrow> real" where
  "cosTaylor a = 1 - a ^ 2 / 2 + a ^ 4 / 24 - a ^ 6 / 720 + a ^ 8 / 40320 - a ^ 10 / 3628800 +
     a ^ 12 / 479001600"

section \<open>The loops\<close>

text \<open>
  A loop that writes entry \<open>i\<close> of an array from the entry itself changes exactly the
  entries of its index range.
\<close>

lemma fold_update_length:
  "length (fold (\<lambda>i a. a[i := f i (a ! i)]) [lo..<hi] a) = length a"
  by (induction hi) simp_all

lemma fold_update_nth:
  "k < length a \<Longrightarrow>
   fold (\<lambda>i a. a[i := f i (a ! i)]) [lo..<hi] a ! k =
     (if lo \<le> k \<and> k < hi then f k (a ! k) else a ! k)"
proof (induction hi arbitrary: k)
  case 0
  then show ?case by simp
next
  case (Suc hi)
  let ?b = "fold (\<lambda>i a. a[i := f i (a ! i)]) [lo..<hi] a"
  have len: "length ?b = length a"
    by (rule fold_update_length)
  show ?case
  proof (cases "lo \<le> hi")
    case True
    then have step: "fold (\<lambda>i a. a[i := f i (a ! i)]) [lo..<Suc hi] a = ?b[hi := f hi (?b ! hi)]"
      by simp
    show ?thesis
    proof (cases "k = hi")
      case True
      with Suc.prems Suc.IH [of hi] len \<open>lo \<le> hi\<close> show ?thesis
        unfolding step by simp
    next
      case False
      with Suc.prems Suc.IH [of k] len show ?thesis
        unfolding step by auto
    qed
  next
    case False
    then show ?thesis by auto
  qed
qed

lemma gridSize_ge: "4 \<le> gridSize"
  by (simp add: gridSize_def)

lemma dx_eq: "dx = Num 5"
  by (simp add: dx_def domainLength_def gridSize_def)

subsection \<open>The passes of the step\<close>

lemma updateWaterLevels_fold:
  "updateWaterLevels params t g =
     fold (\<lambda>i a. a[i := waterLevelPoint params t (a ! i)]) [0..<gridSize] g"
  by (simp add: updateWaterLevels_def waterLevelPoint_def Let_def)

lemma updateWaterLevels_length: "length (updateWaterLevels params t g) = length g"
  by (simp add: updateWaterLevels_fold fold_update_length [where f = "\<lambda>_. waterLevelPoint params t"])

lemma updateWaterLevels_nth:
  "k < length g \<Longrightarrow>
   updateWaterLevels params t g ! k =
     (if k < gridSize then waterLevelPoint params t (g ! k) else g ! k)"
  by (simp add: updateWaterLevels_fold fold_update_nth [where f = "\<lambda>_. waterLevelPoint params t"])

lemma shallowWater_fold:
  "shallowWater params t g =
     fold (\<lambda>i a. a[i := velocityAt params t g i]) [1..<gridSize - 1]
       (replicate gridSize (Num 0))"
  unfolding shallowWater_def Let_def
  apply (rule fold_cong [OF refl refl])
  apply (rule ext)
  subgoal for i a
    by (cases "i < length a")
       (simp_all add: velocityAt_def waveForce_def list_update_beyond)
  done

lemma shallowWater_nth:
  "k < gridSize \<Longrightarrow>
   shallowWater params t g ! k =
     (if 1 \<le> k \<and> k < gridSize - 1 then velocityAt params t g k else Num 0)"
  by (simp add: shallowWater_fold
      fold_update_nth [where f = "\<lambda>i _. velocityAt params t g i"])

lemma updateVelocities_loop:
  "fold (\<lambda>i newGrid.
            let newGrid = newGrid[i := (newGrid ! i)\<lparr>u := nv ! i\<rparr>]
            in newGrid[i := (newGrid ! i)
                 \<lparr>qs := calculateSedimentTransport params (u (newGrid ! i))
                          (h (newGrid ! i)) (sedimentThickness (newGrid ! i))\<rparr>])
          [0..<gridSize] g
   = fold (\<lambda>i a. a[i := transportPoint params (nv ! i) (a ! i)]) [0..<gridSize] g"
  apply (rule fold_cong [OF refl refl])
  apply (rule ext)
  subgoal for i a
    by (cases "i < length a") (simp_all add: transportPoint_def Let_def list_update_beyond)
  done

lemma updateVelocities_eq:
  "updateVelocities params nv g =
     (let a = fold (\<lambda>i a. a[i := transportPoint params (nv ! i) (a ! i)]) [0..<gridSize] g;
          a = a[0 := (a ! 0)\<lparr>u := Num 0\<rparr>]
      in a[gridSize - 1 := (a ! (gridSize - 1))\<lparr>u := Num 0\<rparr>])"
  unfolding updateVelocities_def updateVelocities_loop ..

lemma updateVelocities_length: "length (updateVelocities params nv g) = length g"
  by (simp add: updateVelocities_eq Let_def
      fold_update_length [where f = "\<lambda>i. transportPoint params (nv ! i)"])

lemma updateVelocities_nth:
  assumes "k < length g" and "gridSize \<le> length g"
  shows "updateVelocities params nv g ! k =
     (if k < gridSize
      then (transportPoint params (nv ! k) (g ! k))
             \<lparr>u := if k = 0 \<or> k = gridSize - 1 then Num 0 else nv ! k\<rparr>
      else g ! k)"
proof -
  let ?a = "fold (\<lambda>i a. a[i := transportPoint params (nv ! i) (a ! i)]) [0..<gridSize] g"
  have len: "length ?a = length g"
    by (rule fold_update_length)
  have nth: "?a ! j = (if j < gridSize then transportPoint params (nv ! j) (g ! j) else g ! j)"
    if "j < length g" for j
    using that fold_update_nth [where f = "\<lambda>i. transportPoint params (nv ! i)" and lo = 0]
    by simp
  have "0 < length g" "gridSize - 1 < length g" "0 < gridSize"
    using assms gridSize_ge by auto
  then show ?thesis
    using assms len nth [of k] nth [of 0] nth [of "gridSize - 1"]
    by (auto simp add: updateVelocities_eq Let_def nth_list_update transportPoint_def)
qed

lemma calculateBedChanges_fold:
  "calculateBedChanges params g =
     fold (\<lambda>i a. a[i := bedChangeAt params g i]) [1..<gridSize - 1]
       (replicate gridSize (Num 0))"
  by (simp add: calculateBedChanges_def bedChangeAt_def Let_def)

lemma calculateBedChanges_nth:
  "k < gridSize \<Longrightarrow>
   calculateBedChanges params g ! k =
     (if 1 \<le> k \<and> k < gridSize - 1 then bedChangeAt params g k else Num 0)"
  by (simp add: calculateBedChanges_fold
      fold_update_nth [where f = "\<lambda>i _. bedChangeAt params g i"])

lemma applyBedChanges_fold:
  "applyBedChanges bc g =
     fold (\<lambda>i a. a[i := bedPoint (bc ! i) (a ! i)]) [2..<gridSize - 2] g"
  unfolding applyBedChanges_def
  apply (rule fold_cong [OF refl refl])
  apply (rule ext)
  subgoal for i a
    by (cases "i < length a"; cases "a ! i")
       (simp_all add: bedPoint_def regionCap_def Let_def list_update_beyond)
  done

lemma applyBedChanges_length: "length (applyBedChanges bc g) = length g"
  by (simp add: applyBedChanges_fold
      fold_update_length [where f = "\<lambda>i. bedPoint (bc ! i)"])

lemma applyBedChanges_nth:
  "k < length g \<Longrightarrow>
   applyBedChanges bc g ! k =
     (if 2 \<le> k \<and> k < gridSize - 2 then bedPoint (bc ! k) (g ! k) else g ! k)"
  by (simp add: applyBedChanges_fold
      fold_update_nth [where f = "\<lambda>i. bedPoint (bc ! i)"])

lemma fixedBoundary_length: "length (fixedBoundary g) = length g"
  by (simp add: fixedBoundary_def Let_def)

lemma fixedBoundary_nth:
  assumes "k < length g" and "gridSize \<le> length g"
  shows "fixedBoundary g ! k =
     (if k = 0 then (g ! 0)\<lparr>sedimentThickness := sedimentThickness (g ! 1), zb := zb (g ! 1)\<rparr>
      else if k = gridSize - 1
      then (g ! (gridSize - 1))\<lparr>sedimentThickness := sedimentThickness (g ! (gridSize - 2)),
                                 zb := zb (g ! (gridSize - 2))\<rparr>
      else g ! k)"
proof -
  have "0 < length g" "gridSize - 1 < length g" "2 < gridSize" "gridSize - 1 \<noteq> 0"
    using assms gridSize_ge by auto
  then show ?thesis
    using assms by (auto simp add: fixedBoundary_def Let_def nth_list_update)
qed

subsection \<open>The step\<close>

text \<open>
  The step has a result exactly on a grid of at least \<open>gridSize\<close> points.
\<close>

lemma updateSimulation_eq:
  "gridSize \<le> length g \<Longrightarrow>
   updateSimulation params g t =
     Some (fixedBoundary
       (applyBedChanges (calculateBedChanges params (hydroGrid params t g))
          (hydroGrid params t g)))"
  by (simp add: updateSimulation_def hydroGrid_def Let_def)

lemma updateSimulation_None:
  "length g < gridSize \<Longrightarrow> updateSimulation params g t = None"
  by (simp add: updateSimulation_def)

lemma updateSimulation_Some:
  "gridSize \<le> length g \<Longrightarrow> updateSimulation params g t = Some (stepGrid params t g)"
  by (simp add: updateSimulation_eq stepGrid_def)

lemma hydroGrid_length: "length (hydroGrid params t g) = length g"
  by (simp add: hydroGrid_def Let_def updateVelocities_length updateWaterLevels_length)

lemma hydroGrid_nth:
  assumes "gridSize \<le> length g" and "k < gridSize"
  shows "hydroGrid params t g ! k =
     (waterLevelPoint params t (g ! k))
       \<lparr>u := newVelocity params t g k,
        qs := calculateSedimentTransport params (newVelocity params t g k)
                (h (waterLevelPoint params t (g ! k))) (sedimentThickness (g ! k))\<rparr>"
proof -
  let ?g1 = "updateWaterLevels params t g"
  have k: "k < length ?g1" and len: "gridSize \<le> length ?g1"
    using assms by (simp_all add: updateWaterLevels_length)
  have nv: "shallowWater params t ?g1 ! k = newVelocity params t g k"
    using assms by (simp add: shallowWater_nth newVelocity_def)
  have g1: "?g1 ! k = waterLevelPoint params t (g ! k)"
    using assms by (simp add: updateWaterLevels_nth)
  have "newVelocity params t g k = Num 0" if "k = 0 \<or> k = gridSize - 1"
    using that assms by (auto simp add: newVelocity_def)
  then show ?thesis
    using assms
    by (cases "g ! k")
       (auto simp add: hydroGrid_def Let_def updateVelocities_nth [OF k len] nv g1
          transportPoint_def waterLevelPoint_def)
qed

lemma stepGrid_length: "length (stepGrid params t g) = length g"
  by (simp add: stepGrid_def fixedBoundary_length applyBedChanges_length hydroGrid_length)

lemma bedGrid_nth:
  assumes "gridSize \<le> length g" and "k < gridSize"
  shows "applyBedChanges (calculateBedChanges params (hydroGrid params t g))
           (hydroGrid params t g) ! k =
     (if 2 \<le> k \<and> k < gridSize - 2
      then bedPoint (bedChangeAt params (hydroGrid params t g) k) (hydroGrid params t g ! k)
      else hydroGrid params t g ! k)"
  using assms
  by (auto simp add: applyBedChanges_nth hydroGrid_length calculateBedChanges_nth)

lemma stepGrid_nth:
  assumes "gridSize \<le> length g" and "k < gridSize"
  shows "stepGrid params t g ! k =
     (if k = 0
      then (hydroGrid params t g ! 0)
             \<lparr>sedimentThickness := sedimentThickness (hydroGrid params t g ! 1),
              zb := zb (hydroGrid params t g ! 1)\<rparr>
      else if k = gridSize - 1
      then (hydroGrid params t g ! (gridSize - 1))
             \<lparr>sedimentThickness := sedimentThickness (hydroGrid params t g ! (gridSize - 2)),
              zb := zb (hydroGrid params t g ! (gridSize - 2))\<rparr>
      else if 2 \<le> k \<and> k < gridSize - 2
      then bedPoint (bedChangeAt params (hydroGrid params t g) k) (hydroGrid params t g ! k)
      else hydroGrid params t g ! k)"
proof -
  let ?b = "applyBedChanges (calculateBedChanges params (hydroGrid params t g))
              (hydroGrid params t g)"
  have len: "gridSize \<le> length ?b" and k: "k < length ?b"
    using assms by (simp_all add: applyBedChanges_length hydroGrid_length)
  have idx: "0 < gridSize" "1 < gridSize" "gridSize - 1 < gridSize" "gridSize - 2 < gridSize"
    "\<not> (2 \<le> gridSize - 1 \<and> gridSize - 1 < gridSize - 2)"
    "\<not> (2 \<le> gridSize - 2 \<and> gridSize - 2 < gridSize - 2)"
    using gridSize_ge by auto
  show ?thesis
    unfolding stepGrid_def fixedBoundary_nth [OF k len]
    using assms idx
    by (auto simp add: bedGrid_nth)
qed

lemma bedPoint_frame:
  "x (bedPoint r c) = x c" "h (bedPoint r c) = h c" "u (bedPoint r c) = u c"
  "qs (bedPoint r c) = qs c" "bedrockLevel (bedPoint r c) = bedrockLevel c"
  "initialSedimentThickness (bedPoint r c) = initialSedimentThickness c"
  by (simp_all add: bedPoint_def Let_def)

lemma bedPoint_fields:
  "sedimentThickness (bedPoint r c) =
     Math_min (regionCap (x c)) (Math_max (Num 0) (sedimentThickness c + r))"
  "cumulativeChange (bedPoint r c) =
     cumulativeChange c + (Math_max (Num 0) (sedimentThickness c + r) - sedimentThickness c)"
  "zb (bedPoint r c) = bedrockLevel c + sedimentThickness (bedPoint r c)"
  by (simp_all add: bedPoint_def Let_def)

lemma hydroGrid_frame:
  assumes "gridSize \<le> length g" and "k < gridSize"
  shows "x (hydroGrid params t g ! k) = x (g ! k)"
    and "zb (hydroGrid params t g ! k) = zb (g ! k)"
    and "sedimentThickness (hydroGrid params t g ! k) = sedimentThickness (g ! k)"
    and "bedrockLevel (hydroGrid params t g ! k) = bedrockLevel (g ! k)"
    and "initialSedimentThickness (hydroGrid params t g ! k) = initialSedimentThickness (g ! k)"
    and "cumulativeChange (hydroGrid params t g ! k) = cumulativeChange (g ! k)"
  by (simp_all add: hydroGrid_nth [OF assms] waterLevelPoint_def)

lemma hydroGrid_fields:
  assumes "gridSize \<le> length g" and "k < gridSize"
  shows "h (hydroGrid params t g ! k) =
           Math_max (Num 0)
             (getTidalLevel params t + getWaveLevel params t (x (g ! k)) - zb (g ! k))"
    and "u (hydroGrid params t g ! k) = newVelocity params t g k"
    and "qs (hydroGrid params t g ! k) =
           calculateSedimentTransport params (newVelocity params t g k)
             (h (hydroGrid params t g ! k)) (sedimentThickness (g ! k))"
  by (simp_all add: hydroGrid_nth [OF assms] waterLevelPoint_def)

lemma stepGrid_frame:
  assumes "gridSize \<le> length g" and "k < gridSize"
  shows "x (stepGrid params t g ! k) = x (g ! k)"
    and "bedrockLevel (stepGrid params t g ! k) = bedrockLevel (g ! k)"
    and "initialSedimentThickness (stepGrid params t g ! k) = initialSedimentThickness (g ! k)"
    and "h (stepGrid params t g ! k) = h (hydroGrid params t g ! k)"
    and "u (stepGrid params t g ! k) = u (hydroGrid params t g ! k)"
    and "qs (stepGrid params t g ! k) = qs (hydroGrid params t g ! k)"
  using assms gridSize_ge
  by (simp_all add: stepGrid_nth [OF assms] bedPoint_frame hydroGrid_frame)

lemma stepGrid_interior:
  assumes "gridSize \<le> length g" and "2 \<le> k" and "k < gridSize - 2"
  shows "stepGrid params t g ! k =
           bedPoint (bedChangeAt params (hydroGrid params t g) k) (hydroGrid params t g ! k)"
  using assms by (simp add: stepGrid_nth)

lemma stepGrid_buffer:
  assumes "gridSize \<le> length g" and "k = 1 \<or> k = gridSize - 2"
  shows "stepGrid params t g ! k = hydroGrid params t g ! k"
  using assms gridSize_ge by (auto simp add: stepGrid_nth)

lemma stepGrid_boundary:
  assumes "gridSize \<le> length g"
  shows "sedimentThickness (stepGrid params t g ! 0) = sedimentThickness (g ! 1)"
    and "zb (stepGrid params t g ! 0) = zb (g ! 1)"
    and "cumulativeChange (stepGrid params t g ! 0) = cumulativeChange (g ! 0)"
    and "sedimentThickness (stepGrid params t g ! (gridSize - 1)) =
           sedimentThickness (g ! (gridSize - 2))"
    and "zb (stepGrid params t g ! (gridSize - 1)) = zb (g ! (gridSize - 2))"
    and "cumulativeChange (stepGrid params t g ! (gridSize - 1)) =
           cumulativeChange (g ! (gridSize - 1))"
  using assms gridSize_ge
  by (simp_all add: stepGrid_nth hydroGrid_frame)

lemma jsnum_le_not_less: "a \<le> b \<Longrightarrow> \<not> b < (a :: jsnum)"
  by (cases a; cases b) simp_all

lemma updateWaterLevels_fields:
  assumes "gridSize \<le> length g" and "k < gridSize"
  shows "h (updateWaterLevels params t g ! k) = h (hydroGrid params t g ! k)"
    and "u (updateWaterLevels params t g ! k) = u (g ! k)"
    and "x (updateWaterLevels params t g ! k) = x (g ! k)"
  using assms
  by (simp_all add: updateWaterLevels_nth hydroGrid_fields waterLevelPoint_def)

lemma newVelocity_interior:
  assumes "gridSize \<le> length g" and "1 \<le> i" and "i < gridSize - 1"
  shows "newVelocity params t g i =
     (if Num 0.05 < h (hydroGrid params t g ! i)
      then Math_max (Num (- 2.0)) (Math_min (Num 2.0)
             (u (g ! i) - dt *
                (Num 9.81 * ((h (hydroGrid params t g ! (i + 1)) -
                              h (hydroGrid params t g ! (i - 1))) / (Num 2 * dx)) +
                 Num 0.02 * u (g ! i) * \<bar>u (g ! i)\<bar> / (h (hydroGrid params t g ! i) + Num 0.01) -
                 waveForce params t (x (g ! i)))))
      else Num 0)"
proof -
  have "i < gridSize" "i + 1 < gridSize" "i - 1 < gridSize"
    using assms by auto
  then show ?thesis
    using assms
    by (simp add: newVelocity_def velocityAt_def updateWaterLevels_fields [OF assms(1)])
qed

lemma stepGrid_bufferKept:
  assumes "gridSize \<le> length g"
  shows "bufferKept g (stepGrid params t g)"
proof -
  have "1 < gridSize" "gridSize - 2 < gridSize"
    using gridSize_ge by auto
  then show ?thesis
    using assms
    by (simp add: bufferKept_def stepGrid_buffer hydroGrid_frame)
qed

lemma stepGrid_boundaryCopied:
  assumes "gridSize \<le> length g"
  shows "boundaryCopied g (stepGrid params t g)"
  using stepGrid_boundary [OF assms, of params t]
  by (simp add: boundaryCopied_def)

lemma stepGrid_edgeKept:
  assumes "gridSize \<le> length g" and "edgeKept g0 g"
  shows "edgeKept g0 (stepGrid params t g)"
  using assms stepGrid_bufferKept [OF assms(1), of params t]
    stepGrid_boundaryCopied [OF assms(1), of params t]
  by (simp add: edgeKept_def bufferKept_def boundaryCopied_def)

section \<open>The initial grid\<close>

lemma fold_push:
  "fold (\<lambda>i acc. acc @ [f i]) [lo..<hi] acc = acc @ map f [lo..<hi]"
  by (induction hi) simp_all

lemma initialGrid_map: "initialGrid params = map (makePoint params) [0..<gridSize]"
proof -
  have "initialGrid params = fold (\<lambda>i acc. acc @ [makePoint params i]) [0..<gridSize] []"
    by (simp add: initialGrid_def makePoint_def Let_def)
  then show ?thesis
    by (simp add: fold_push [where f = "makePoint params"])
qed

lemma initialGrid_length: "length (initialGrid params) = gridSize"
  by (simp add: initialGrid_map)

lemma initialGrid_nth: "k < gridSize \<Longrightarrow> initialGrid params ! k = makePoint params k"
  by (simp add: initialGrid_map)

lemma makePoint_fields:
  "cumulativeChange (makePoint params i) = Num 0"
  "zb (makePoint params i) = bedrockLevel (makePoint params i) + sedimentThickness (makePoint params i)"
  "initialSedimentThickness (makePoint params i) = sedimentThickness (makePoint params i)"
  "x (makePoint params i) = Num (real i) * dx"
  "u (makePoint params i) = Num 0"
  by (simp_all add: makePoint_def Let_def)

lemma list_all_nth: "list_all P xs \<Longrightarrow> k < length xs \<Longrightarrow> P (xs ! k)"
  by (simp add: list_all_length)

lemma initialGrid_boundary_thickness:
  "sedimentThickness (initialGrid params ! 0) = sedimentThickness (initialGrid params ! 1)"
  "sedimentThickness (initialGrid params ! (gridSize - 1)) =
     sedimentThickness (initialGrid params ! (gridSize - 2))"
  by (simp_all add: initialGrid_nth gridSize_def makePoint_def Let_def dx_eq)

lemma initialGrid_cumulativeChange:
  "k < gridSize \<Longrightarrow> cumulativeChange (initialGrid params ! k) = Num 0"
  by (simp add: initialGrid_nth makePoint_fields)

lemma initialGrid_shape:
  assumes "beachSlope p = beachSlope q" and "sedimentSupply p = sedimentSupply q"
  shows "initialGrid p = initialGrid q"
proof -
  have "makePoint p = makePoint q"
    unfolding makePoint_def assms ..
  then show ?thesis
    by (simp add: initialGrid_map)
qed

lemma initialGrid_point0:
  "initialGrid defaultParams ! 0 =
     \<lparr>x = Num 0, h = Num 7.8, u = Num 0, zb = Num (- 7.8), qs = Num 0,
      sedimentThickness = Num 0.2, bedrockLevel = Num (- 8),
      initialSedimentThickness = Num 0.2, cumulativeChange = Num 0\<rparr>"
  by (simp add: initialGrid_nth gridSize_def makePoint_def Let_def dx_eq defaultParams_def)

lemma initialGrid_point1:
  "initialGrid defaultParams ! 1 =
     \<lparr>x = Num 5, h = Num 7.75, u = Num 0, zb = Num (- 7.75), qs = Num 0,
      sedimentThickness = Num 0.2, bedrockLevel = Num (- 7.95),
      initialSedimentThickness = Num 0.2, cumulativeChange = Num 0\<rparr>"
  by (simp add: initialGrid_nth gridSize_def makePoint_def Let_def dx_eq defaultParams_def)

lemma initialGrid_shore:
  "initialGrid defaultParams ! 75 =
     \<lparr>x = Num 375, h = Num 0.45, u = Num 0, zb = Num (- 0.45), qs = Num 0,
      sedimentThickness = Num 0.8, bedrockLevel = Num (- 1.25),
      initialSedimentThickness = Num 0.8, cumulativeChange = Num 0\<rparr>"
  "initialGrid defaultParams ! 76 =
     \<lparr>x = Num 380, h = Num 0.2, u = Num 0, zb = Num (- 0.2), qs = Num 0,
      sedimentThickness = Num 0.8, bedrockLevel = Num (- 1),
      initialSedimentThickness = Num 0.8, cumulativeChange = Num 0\<rparr>"
  "initialGrid defaultParams ! 77 =
     \<lparr>x = Num 385, h = Num 0, u = Num 0, zb = Num 0.05, qs = Num 0,
      sedimentThickness = Num 0.8, bedrockLevel = Num (- 0.75),
      initialSedimentThickness = Num 0.8, cumulativeChange = Num 0\<rparr>"
  "initialGrid defaultParams ! 78 =
     \<lparr>x = Num 390, h = Num 0, u = Num 0, zb = Num 0.3, qs = Num 0,
      sedimentThickness = Num 0.8, bedrockLevel = Num (- 0.5),
      initialSedimentThickness = Num 0.8, cumulativeChange = Num 0\<rparr>"
  by (simp_all add: initialGrid_nth gridSize_def makePoint_def Let_def dx_eq defaultParams_def)

lemma initialGrid_admissible: "admissible (initialGrid defaultParams)"
  by (simp add: admissible_def initialGrid_length initialGrid_nth makePoint_def Let_def
      defaultParams_def regionCap_def dx_eq)

section \<open>Runs\<close>

lemma animate_Some:
  assumes "length (grid sim) = gridSize"
  shows "animate params sim =
     Some (sim\<lparr>timeRef := timeRef sim + dt * simulationSpeed params,
                grid := stepGrid params (timeRef sim + dt * simulationSpeed params) (grid sim)\<rparr>)"
  using assms by (simp add: animate_def Let_def updateSimulation_Some)

lemma frames_append:
  "frames (ps @ rest) sim =
     (case frames ps sim of None \<Rightarrow> None | Some sim' \<Rightarrow> frames rest sim')"
  by (induction ps arbitrary: sim) (simp_all split: option.splits)

text \<open>
  A run from a grid of \<open>gridSize\<close> points has a result, and a property that every frame
  keeps holds at the end of the run.
\<close>

lemma frames_invariant:
  assumes "length (grid sim) = gridSize" and "I sim" and "list_all Q ps"
    and "\<And>params s. Q params \<Longrightarrow> length (grid s) = gridSize \<Longrightarrow> I s \<Longrightarrow>
           I (s\<lparr>timeRef := timeRef s + dt * simulationSpeed params,
                 grid := stepGrid params (timeRef s + dt * simulationSpeed params) (grid s)\<rparr>)"
  shows "\<exists>sim'. frames ps sim = Some sim' \<and> length (grid sim') = gridSize \<and> I sim'"
  using assms(1-3)
proof (induction ps arbitrary: sim)
  case Nil
  then show ?case by simp
next
  case (Cons params ps)
  let ?next = "sim\<lparr>timeRef := timeRef sim + dt * simulationSpeed params,
      grid := stepGrid params (timeRef sim + dt * simulationSpeed params) (grid sim)\<rparr>"
  have "length (grid ?next) = gridSize" and "I ?next" and "list_all Q ps"
    using Cons.prems assms(4) by (simp_all add: stepGrid_length)
  then show ?case
    using Cons.IH [of ?next] Cons.prems by (simp add: animate_Some)
qed

lemma frames_edgeKept:
  assumes "length g0 = gridSize"
    and "sedimentThickness (g0 ! 0) = sedimentThickness (g0 ! 1)"
    and "sedimentThickness (g0 ! (gridSize - 1)) = sedimentThickness (g0 ! (gridSize - 2))"
  shows "\<exists>sim'. frames ps \<lparr>isRunning = r, timeRef = t0, grid = g0\<rparr> = Some sim' \<and>
           length (grid sim') = gridSize \<and> edgeKept g0 (grid sim')"
proof (rule frames_invariant [where Q = "\<lambda>_. True"])
  show "list_all (\<lambda>_. True) ps"
    by (simp add: list_all_iff)
  show "length (grid \<lparr>isRunning = r, timeRef = t0, grid = g0\<rparr>) = gridSize"
    using assms by simp
  show "edgeKept g0 (grid \<lparr>isRunning = r, timeRef = t0, grid = g0\<rparr>)"
    using assms by (simp add: edgeKept_def bufferKept_def)
  show "edgeKept g0 (grid (s\<lparr>timeRef := timeRef s + dt * simulationSpeed params,
          grid := stepGrid params (timeRef s + dt * simulationSpeed params) (grid s)\<rparr>))"
    if "length (grid s) = gridSize" and "edgeKept g0 (grid s)" for params s
    using that by (simp add: stepGrid_edgeKept)
qed

section \<open>The transport rate over the real numbers\<close>

lemma numeric_iff: "numeric a \<longleftrightarrow> (\<exists>r. a = Num r)"
  by (cases a) simp_all

lemma calculateSedimentTransport_Num:
  assumes "grainSize params = Num gs" and "0 \<le> gs"
  shows "calculateSedimentTransport params (Num v) (Num d) (Num s) =
     (if transportActive gs v d s
      then (if shearInGap gs v d then NaN
            else Num (max (- 0.02) (min 0.02 (bedloadFormula gs v d s))))
      else Num 0)"
proof (cases "d > 0.01")
  case False
  then have "\<not> Num 0.01 < Num d" "\<not> transportActive gs v d s"
    by (simp_all add: transportActive_def)
  then show ?thesis
    by (simp add: calculateSedimentTransport_def Let_def)
next
  case True
  define d50 where "d50 = gs / 1000"
  define tau where "tau = 1000 * 9.81 * d * \<bar>v\<bar> * v / (d + 0.01)"
  define tc where "tc = 0.03 * 1650 * 9.81 * d50"
  define ts where "ts = \<bar>tau\<bar> / (tc + 0.0001)"
  have pos: "0 \<le> d50" "0 \<le> tc" "tc + 0.0001 \<noteq> 0" "d + 0.01 \<noteq> 0" "0 \<le> 9.81 * d50"
    using assms(2) True by (simp_all add: d50_def tc_def add_nonneg_eq_0_iff)
  have e1: "grainSize params / Num 1000 = Num d50"
    using assms(1) by (simp add: d50_def)
  have e2: "Num 1000 * Num 9.81 * Num d * \<bar>Num v\<bar> * Num v / (Num d + Num 0.01) = Num tau"
    using pos(4) by (simp add: tau_def)
  have e3: "Num 0.03 * (Num 2650 - Num 1000) * Num 9.81 * Num d50 = Num tc"
    by (simp add: tc_def)
  have e4: "\<bar>Num tau\<bar> / (Num tc + Num 0.0001) = Num ts"
    using pos(3) by (simp add: ts_def)
  have e5: "Math_sqrt (Num 9.81 * Num d50) = Num (sqrt (9.81 * d50))"
    using pos(5) by simp
  have e6: "Math_pow (Math_min (Num ts - Num 1) (Num 8)) (Num 1.5) =
      (if ts < 1 then NaN else Num ((min (ts - 1) 8) powr 1.5))"
    by (auto simp add: min_def)
  have gap: "shearInGap gs v d \<longleftrightarrow> ts < 1"
  proof -
    have "0 < tc + 0.0001"
      using pos(2) by simp
    then have "ts < 1 \<longleftrightarrow> \<bar>tau\<bar> < tc + 0.0001"
      unfolding ts_def by (simp only: divide_less_eq_1_pos)
    moreover have "shearInGap gs v d \<longleftrightarrow> \<bar>tau\<bar> < tc + 0.0001"
      by (simp add: shearInGap_def tau_def tc_def d50_def)
    ultimately show ?thesis
      by simp
  qed
  have act: "transportActive gs v d s \<longleftrightarrow> tc < \<bar>tau\<bar> \<and> 0.001 < s"
    using True by (simp add: transportActive_def tau_def tc_def d50_def)
  have form: "bedloadFormula gs v d s =
      5.0 * sqrt (9.81 * d50) * d50 * (min (ts - 1) 8) powr 1.5 * sgn v * min 1 (s / 0.02)"
    by (simp add: bedloadFormula_def Let_def ts_def tau_def tc_def d50_def)
  have "calculateSedimentTransport params (Num v) (Num d) (Num s) =
     (if tc < \<bar>tau\<bar> \<and> 0.001 < s
      then Math_max (Num (- 0.02)) (Math_min (Num 0.02)
             (Num 5.0 * Num (sqrt (9.81 * d50)) * Num d50 *
              (if ts < 1 then NaN else Num ((min (ts - 1) 8) powr 1.5)) *
              sgn (Num v) * Math_min (Num 1) (Num s / Num 0.02)))
      else Num 0)"
    unfolding calculateSedimentTransport_def Let_def e1 e2 e3 e4 e5 e6
    using True by simp
  also have "\<dots> = (if tc < \<bar>tau\<bar> \<and> 0.001 < s
      then (if ts < 1 then NaN
            else Num (max (- 0.02) (min 0.02
              (5.0 * sqrt (9.81 * d50) * d50 * (min (ts - 1) 8) powr 1.5 * sgn v *
               min 1 (s / 0.02)))))
      else Num 0)"
    by simp
  finally show ?thesis
    unfolding gap act form .
qed

lemma bedloadFormula_positive:
  assumes "0 < gs" and "0 < v" and "0 < s" and "\<not> shearInGap gs v d"
    and "\<bar>1000 * 9.81 * d * \<bar>v\<bar> * v / (d + 0.01)\<bar> \<noteq> 0.03 * 1650 * 9.81 * (gs / 1000) + 0.0001"
  shows "0 < bedloadFormula gs v d s"
proof -
  define tc where "tc = 0.03 * 1650 * 9.81 * (gs / 1000)"
  define tau where "tau = 1000 * 9.81 * d * \<bar>v\<bar> * v / (d + 0.01)"
  have tc: "0 < tc + 0.0001"
    using assms(1) by (simp add: tc_def)
  have "tc + 0.0001 < \<bar>tau\<bar>"
    using assms(4,5) by (simp add: shearInGap_def tc_def tau_def)
  then have "1 < \<bar>tau\<bar> / (tc + 0.0001)"
    using tc by (simp only: less_divide_eq_1_pos)
  then have "0 < min (\<bar>tau\<bar> / (tc + 0.0001) - 1) 8"
    by (simp only: min_less_iff_conj diff_gt_0_iff_gt) simp
  then have "min (\<bar>tau\<bar> / (tc + 0.0001) - 1) 8 \<noteq> 0"
    by (rule less_imp_neq [THEN not_sym])
  then have "0 < (min (\<bar>tau\<bar> / (tc + 0.0001) - 1) 8) powr 1.5"
    by simp
  moreover have "0 < sqrt (9.81 * (gs / 1000))" "0 < gs / 1000" "0 < min 1 (s / 0.02)" "sgn v = 1"
    using assms(1-3) by simp_all
  ultimately show ?thesis
    unfolding bedloadFormula_def Let_def tc_def [symmetric] tau_def [symmetric]
    by simp
qed

lemma clamp_abs: "0 \<le> b \<Longrightarrow> \<bar>max (- b) (min b e)\<bar> \<le> (b::real)"
  by (simp add: abs_le_iff max_def min_def)

lemma transport_numeric_iff:
  assumes "grainSize params = Num gs" and "0 \<le> gs"
  shows "numeric (calculateSedimentTransport params (Num v) (Num d) (Num s)) \<longleftrightarrow>
     \<not> (transportActive gs v d s \<and> shearInGap gs v d)"
  by (simp add: calculateSedimentTransport_Num [OF assms])

lemma transport_bounded:
  assumes "numeric (calculateSedimentTransport params a b c)"
  shows "\<exists>r. calculateSedimentTransport params a b c = Num r \<and> \<bar>r\<bar> \<le> 0.02"
proof -
  have clamp: "\<exists>r. Math_max (Num (- 0.02)) (Math_min (Num 0.02) e) = Num r \<and> \<bar>r\<bar> \<le> 0.02"
    if "numeric (Math_max (Num (- 0.02)) (Math_min (Num 0.02) e))" for e
    using that by (cases e) (simp_all add: clamp_abs [of "0.02", simplified])
  show ?thesis
    using assms clamp
    by (auto simp add: calculateSedimentTransport_def Let_def split: if_splits)
qed

text \<open>
  A point without sediment has the rate 0, whatever its velocity and depth are.
\<close>

lemma transport_exhausted: "calculateSedimentTransport params vel depth (Num 0) = Num 0"
  by (simp add: calculateSedimentTransport_def Let_def)

section \<open>Forcing\<close>

lemma forcingDefined_cases:
  assumes "forcingDefined params"
  obtains R tp H wp sp where "tidalRange params = Num R" and "tidalPeriod params = Num tp"
    and "tp \<noteq> 0" and "waveHeight params = Num H" and "wavePeriod params = Num wp"
    and "wp \<noteq> 0" and "simulationSpeed params = Num sp"
  using assms by (auto simp add: forcingDefined_def numeric_iff)

lemma forcing_numeric:
  assumes "forcingDefined params"
  shows "numeric (getTidalLevel params (Num t))"
    and "numeric (getWaveLevel params (Num t) (Num pos))"
    and "numeric (waveForce params (Num t) (Num pos))"
proof -
  obtain R tp H wp sp where "tidalRange params = Num R" and "tidalPeriod params = Num tp"
    and "tp \<noteq> 0" and "waveHeight params = Num H" and "wavePeriod params = Num wp"
    and "wp \<noteq> 0" and "simulationSpeed params = Num sp"
    using assms by (rule forcingDefined_cases)
  then show "numeric (getTidalLevel params (Num t))"
    and "numeric (getWaveLevel params (Num t) (Num pos))"
    and "numeric (waveForce params (Num t) (Num pos))"
    by (simp_all add: getTidalLevel_def getWaveLevel_def waveForce_def Math_PI_def)
qed

lemma depth_nonneg:
  assumes "forcingDefined params" and "gridSize \<le> length g" and "k < gridSize"
    and "numeric (x (g ! k))" and "numeric (zb (g ! k))"
  shows "\<exists>r. h (hydroGrid params (Num t) g ! k) = Num r \<and> 0 \<le> r"
proof -
  obtain pos z where cell: "x (g ! k) = Num pos" "zb (g ! k) = Num z"
    using assms(4,5) by (auto simp add: numeric_iff)
  obtain a b where "getTidalLevel params (Num t) = Num a"
    "getWaveLevel params (Num t) (Num pos) = Num b"
    using forcing_numeric(1) [OF assms(1), of t] forcing_numeric(2) [OF assms(1), of t pos]
    by (auto simp add: numeric_iff)
  then show ?thesis
    using assms(2,3) cell by (simp add: hydroGrid_fields)
qed

lemma velocity_bounded:
  assumes "forcingDefined params" and "gridSize \<le> length g" and "k < gridSize"
    and "\<And>i. i < gridSize \<Longrightarrow> numeric (x (g ! i)) \<and> numeric (zb (g ! i))"
    and "numeric (u (g ! k))"
  shows "\<exists>v. newVelocity params (Num t) g k = Num v \<and> \<bar>v\<bar> \<le> 2"
proof (cases "1 \<le> k \<and> k < gridSize - 1")
  case False
  then show ?thesis
    by (auto simp add: newVelocity_def)
next
  case True
  then have k: "1 \<le> k" "k < gridSize - 1" "k + 1 < gridSize" "k - 1 < gridSize"
    by auto
  obtain d where d: "h (hydroGrid params (Num t) g ! k) = Num d" "0 \<le> d"
    using depth_nonneg [OF assms(1-3)] assms(4) [OF assms(3)] by blast
  obtain d1 where d1: "h (hydroGrid params (Num t) g ! (k + 1)) = Num d1"
    using depth_nonneg [OF assms(1,2) k(3)] assms(4) [OF k(3)] by blast
  obtain d2 where d2: "h (hydroGrid params (Num t) g ! (k - 1)) = Num d2"
    using depth_nonneg [OF assms(1,2) k(4)] assms(4) [OF k(4)] by blast
  obtain pos v0 where cell: "x (g ! k) = Num pos" "u (g ! k) = Num v0"
    using assms(4) [OF assms(3)] assms(5) by (auto simp add: numeric_iff)
  obtain f where f: "waveForce params (Num t) (Num pos) = Num f"
    using forcing_numeric(3) [OF assms(1), of t pos] by (auto simp add: numeric_iff)
  have "d + 1 / 100 \<noteq> 0"
    using d(2) by simp
  then show ?thesis
    unfolding newVelocity_interior [OF assms(2) k(1,2)] d d1 d2 cell f
    by (simp add: dx_eq dt_def clamp_abs [of 2, simplified])
qed

lemma bedChange_numeric:
  assumes "numeric (qs (g ! (k + 1)))" and "numeric (qs (g ! (k - 1)))"
    and "numeric (simulationSpeed params)"
  shows "numeric (bedChangeAt params g k)"
  using assms by (auto simp add: numeric_iff bedChangeAt_def dx_eq dt_def)

lemma regionCap_cases: "regionCap pos = Num 8 \<or> regionCap pos = Num 12"
  by (simp add: regionCap_def)

lemma bedPoint_bounds:
  assumes "Num 0 \<le> sedimentThickness c" and "numeric b"
  shows "Num 0 \<le> sedimentThickness (bedPoint b c)"
    and "sedimentThickness (bedPoint b c) \<le> regionCap (x c)"
  using assms regionCap_cases [of "x c"]
  by (cases "sedimentThickness c"; cases b; auto simp add: bedPoint_fields)+

lemma admissible_region:
  assumes "admissible g"
  shows "regionCap (x (g ! 0)) = regionCap (x (g ! 1))"
    and "regionCap (x (g ! (gridSize - 1))) = regionCap (x (g ! (gridSize - 2)))"
proof -
  have "0 < gridSize" "1 < gridSize" "gridSize - 1 < gridSize" "gridSize - 2 < gridSize"
    using gridSize_ge by auto
  then have "x (g ! 0) = Num 0" "x (g ! 1) = Num 5" "x (g ! (gridSize - 1)) = Num 995"
    "x (g ! (gridSize - 2)) = Num 990"
    using assms by (simp_all add: admissible_def dx_eq) (simp_all add: gridSize_def)
  then show "regionCap (x (g ! 0)) = regionCap (x (g ! 1))"
    and "regionCap (x (g ! (gridSize - 1))) = regionCap (x (g ! (gridSize - 2)))"
    by (simp_all add: regionCap_def)
qed

subsection \<open>Still water\<close>

lemma still_tide:
  assumes "tidalRange params = Num 0" and "tidalPeriod params = Num tp" and "tp \<noteq> 0"
  shows "getTidalLevel params (Num t) = Num 0"
  using assms by (simp add: getTidalLevel_def Math_PI_def)

lemma still_wave:
  assumes "waveHeight params = Num 0" and "wavePeriod params = Num wp" and "wp \<noteq> 0"
  shows "getWaveLevel params (Num t) (Num pos) = Num 0"
    and "waveForce params (Num t) (Num pos) = Num 0"
  using assms by (simp_all add: getWaveLevel_def waveForce_def Math_PI_def)

lemma stillWater_forcingDefined: "stillWater params \<Longrightarrow> forcingDefined params"
  by (simp add: stillWater_def)

lemma stillWater_level:
  assumes "stillWater params"
  shows "getTidalLevel params (Num t) = Num 0"
    and "getWaveLevel params (Num t) (Num pos) = Num 0"
    and "waveForce params (Num t) (Num pos) = Num 0"
  using assms
  by (auto simp add: stillWater_def forcingDefined_def numeric_iff still_tide still_wave)

lemma stillWater_depth:
  assumes "stillWater params" and "gridSize \<le> length g" and "k < gridSize"
    and "numeric (x (g ! k))"
  shows "h (hydroGrid params (Num t) g ! k) = Math_max (Num 0) (- zb (g ! k))"
proof -
  obtain pos where "x (g ! k) = Num pos"
    using assms(4) by (auto simp add: numeric_iff)
  then show ?thesis
    using assms(1-3)
    by (cases "zb (g ! k)") (simp_all add: hydroGrid_fields stillWater_level)
qed

lemma still_depth_cases:
  "Num 0 \<le> z \<Longrightarrow> Math_max (Num 0) (- z) = Num 0"
  "z < Num 0 \<Longrightarrow> Math_max (Num 0) (- z) = - z"
  by (cases z; simp)+

lemma stillWaterParams_still: "stillWater stillWaterParams"
  by (simp add: stillWater_def forcingDefined_def stillWaterParams_def defaultParams_def)

lemma stillWaterParams_fields:
  "grainSize stillWaterParams = Num 0.5" "simulationSpeed stillWaterParams = Num 1"
  by (simp_all add: stillWaterParams_def defaultParams_def)

lemma stillWater_grid: "initialGrid stillWaterParams = initialGrid defaultParams"
  by (rule initialGrid_shape) (simp_all add: stillWaterParams_def)

lemma positioned_nth:
  assumes "positioned sim" and "length (grid sim) = gridSize" and "k < gridSize"
  shows "numeric (x (grid sim ! k))"
  using assms by (simp add: positioned_def list_all_length)

lemma mount_positioned: "positioned (mount params)"
  by (simp add: positioned_def mount_def initialGrid_map list_all_iff makePoint_fields dx_eq)

lemma stillWater_positioned:
  assumes "stillWater params" and "length (grid s) = gridSize" and "positioned s"
  shows "positioned (s\<lparr>timeRef := timeRef s + dt * simulationSpeed params,
           grid := stepGrid params (timeRef s + dt * simulationSpeed params) (grid s)\<rparr>)"
proof -
  have "numeric (timeRef s + dt * simulationSpeed params)"
    using assms(1,3) by (auto simp add: positioned_def stillWater_def forcingDefined_def numeric_iff dt_def)
  moreover have "numeric (x (stepGrid params t (grid s) ! k))" if "k < gridSize" for k t
    using that assms(2) positioned_nth [OF assms(3,2) that] by (simp add: stepGrid_frame)
  ultimately show ?thesis
    using assms(2) by (simp add: positioned_def list_all_length stepGrid_length)
qed

subsection \<open>The shoreline of the default beach in still water\<close>

lemma shore_depths:
  "h (hydroGrid stillWaterParams (Num 0.1) (initialGrid defaultParams) ! 0) = Num 7.8"
  "h (hydroGrid stillWaterParams (Num 0.1) (initialGrid defaultParams) ! 75) = Num 0.45"
  "h (hydroGrid stillWaterParams (Num 0.1) (initialGrid defaultParams) ! 76) = Num 0.2"
  "h (hydroGrid stillWaterParams (Num 0.1) (initialGrid defaultParams) ! 77) = Num 0"
  "h (hydroGrid stillWaterParams (Num 0.1) (initialGrid defaultParams) ! 78) = Num 0"
  by (simp_all add: stillWater_depth [OF stillWaterParams_still] initialGrid_length gridSize_def
      initialGrid_point0 initialGrid_shore)

lemma shore_velocities:
  "newVelocity stillWaterParams (Num 0.1) (initialGrid defaultParams) 76 = Num 0.044145"
  "newVelocity stillWaterParams (Num 0.1) (initialGrid defaultParams) 78 = Num 0"
proof -
  have len: "gridSize \<le> length (initialGrid defaultParams)"
    by (simp add: initialGrid_length)
  have i: "(1::nat) \<le> 76" "76 < gridSize - 1" "(1::nat) \<le> 78" "78 < gridSize - 1"
    by (simp_all add: gridSize_def)
  show "newVelocity stillWaterParams (Num 0.1) (initialGrid defaultParams) 76 = Num 0.044145"
    unfolding newVelocity_interior [OF len i(1,2)]
    by (simp add: shore_depths initialGrid_shore stillWater_level [OF stillWaterParams_still]
        dx_eq dt_def)
  show "newVelocity stillWaterParams (Num 0.1) (initialGrid defaultParams) 78 = Num 0"
    unfolding newVelocity_interior [OF len i(3,4)]
    by (simp add: shore_depths)
qed

lemma shore_transport:
  "\<exists>r. qs (hydroGrid stillWaterParams (Num 0.1) (initialGrid defaultParams) ! 76) = Num r \<and>
       0 < r \<and> r \<le> 0.02"
  "qs (hydroGrid stillWaterParams (Num 0.1) (initialGrid defaultParams) ! 78) = Num 0"
proof -
  have len: "gridSize \<le> length (initialGrid defaultParams)"
    by (simp add: initialGrid_length)
  have i: "76 < gridSize" "78 < gridSize"
    by (simp_all add: gridSize_def)
  have act: "transportActive 0.5 0.044145 0.2 0.8" "\<not> shearInGap 0.5 0.044145 0.2"
    by (simp_all add: transportActive_def shearInGap_def)
  have "0 < bedloadFormula 0.5 0.044145 0.2 0.8"
    by (rule bedloadFormula_positive) (simp_all add: shearInGap_def)
  then have "0 < max (- 0.02) (min 0.02 (bedloadFormula 0.5 0.044145 0.2 0.8))"
    "max (- 0.02) (min 0.02 (bedloadFormula 0.5 0.044145 0.2 0.8)) \<le> 0.02"
    by simp_all
  moreover have "qs (hydroGrid stillWaterParams (Num 0.1) (initialGrid defaultParams) ! 76) =
      Num (max (- 0.02) (min 0.02 (bedloadFormula 0.5 0.044145 0.2 0.8)))"
    unfolding hydroGrid_fields(3) [OF len i(1)] shore_velocities shore_depths initialGrid_shore
    using act by (simp add: calculateSedimentTransport_Num [OF stillWaterParams_fields(1)])
  ultimately show "\<exists>r. qs (hydroGrid stillWaterParams (Num 0.1) (initialGrid defaultParams) ! 76) = Num r \<and>
       0 < r \<and> r \<le> 0.02"
    by blast
  show "qs (hydroGrid stillWaterParams (Num 0.1) (initialGrid defaultParams) ! 78) = Num 0"
    unfolding hydroGrid_fields(3) [OF len i(2)] shore_velocities shore_depths initialGrid_shore
    by (simp add: calculateSedimentTransport_Num [OF stillWaterParams_fields(1)]
        transportActive_def)
qed

lemma shore_deposit:
  "Num 0 < cumulativeChange
     (stepGrid stillWaterParams (Num 0.1) (initialGrid defaultParams) ! 77)"
proof -
  let ?hg = "hydroGrid stillWaterParams (Num 0.1) (initialGrid defaultParams)"
  have len: "gridSize \<le> length (initialGrid defaultParams)"
    by (simp add: initialGrid_length)
  have i: "(2::nat) \<le> 77" "77 < gridSize - 2" "77 < gridSize"
    by (simp_all add: gridSize_def)
  obtain r where r: "qs (?hg ! 76) = Num r" "0 < r" "r \<le> 0.02"
    using shore_transport(1) by blast
  have change: "bedChangeAt stillWaterParams ?hg 77 = Num (r / 8)"
    using r by (simp add: bedChangeAt_def shore_transport(2) dx_eq dt_def stillWaterParams_fields)
  show ?thesis
    unfolding stepGrid_interior [OF len i(1,2)] bedPoint_fields change
    using r(2) len i(3)
    by (simp add: hydroGrid_frame initialGrid_shore)
qed

section \<open>The bounds of one step\<close>

text \<open>
  Take a grid of \<open>gridSize\<close> points at the positions \<open>x = i * dx\<close>, with numeric bed elevations
  and velocities and \<open>0 \<le> sedimentThickness \<le> cap\<close> (8 where \<open>x < 300\<close>, 12 elsewhere),
  a numeric time, and parameters whose tidal range, wave height and speed are numbers and
  whose tidal and wave periods are non-zero numbers. Then the step returns a grid in which
  every cell has \<open>h \<ge> 0\<close> and \<open>|u| \<le> 2\<close>; and if no transport rate of the returned grid
  is \<open>NaN\<close>, every cell has \<open>0 \<le> sedimentThickness \<le> cap\<close> and \<open>|qs| \<le> 0.02\<close>.
\<close>

lemma step_bounds:
  assumes "admissible g" and "forcingDefined params" and "numeric t"
  shows "\<exists>g'. updateSimulation params g t = Some g' \<and>
     (\<forall>i<gridSize. Num 0 \<le> h (g' ! i) \<and> \<bar>u (g' ! i)\<bar> \<le> Num 2.0) \<and>
     ((\<forall>i<gridSize. numeric (qs (g' ! i))) \<longrightarrow>
      (\<forall>i<gridSize. Num 0 \<le> sedimentThickness (g' ! i) \<and>
         sedimentThickness (g' ! i) \<le> regionCap (x (g' ! i)) \<and>
         \<bar>qs (g' ! i)\<bar> \<le> Num 0.02))"
proof -
  obtain tt where t: "t = Num tt"
    using assms(3) by (auto simp add: numeric_iff)
  let ?s = "stepGrid params t g"
  let ?hg = "hydroGrid params t g"
  have len: "gridSize \<le> length g"
    using assms(1) by (simp add: admissible_def)
  have cell: "numeric (x (g ! i)) \<and> numeric (zb (g ! i))" "numeric (u (g ! i))"
    "Num 0 \<le> sedimentThickness (g ! i)" "sedimentThickness (g ! i) \<le> regionCap (x (g ! i))"
    if "i < gridSize" for i
    using that assms(1) by (auto simp add: admissible_def dx_eq)
  have idx: "0 < gridSize" "1 < gridSize" "gridSize - 1 < gridSize" "gridSize - 2 < gridSize"
    using gridSize_ge by auto
  have hydro: "Num 0 \<le> h (?s ! i) \<and> \<bar>u (?s ! i)\<bar> \<le> Num 2.0" if i: "i < gridSize" for i
  proof -
    obtain d where "h (?hg ! i) = Num d" "0 \<le> d"
      using depth_nonneg [OF assms(2) len i, of tt] cell(1) [OF i] t by blast
    moreover obtain v where "newVelocity params t g i = Num v" "\<bar>v\<bar> \<le> 2"
      using velocity_bounded [OF assms(2) len i, of tt] cell(1,2) i t by blast
    ultimately show ?thesis
      using len i by (simp add: stepGrid_frame hydroGrid_fields)
  qed
  have bed: "Num 0 \<le> sedimentThickness (?s ! i) \<and>
         sedimentThickness (?s ! i) \<le> regionCap (x (?s ! i)) \<and>
         \<bar>qs (?s ! i)\<bar> \<le> Num 0.02"
    if rates: "\<forall>i<gridSize. numeric (qs (?s ! i))" and i: "i < gridSize" for i
  proof -
    have rate: "numeric (qs (?hg ! j))" if j: "j < gridSize" for j
      using rates j len by (simp add: stepGrid_frame)
    have eq: "qs (?hg ! i) =
        calculateSedimentTransport params (newVelocity params t g i) (h (?hg ! i))
          (sedimentThickness (g ! i))"
      using len i by (rule hydroGrid_fields(3))
    have "numeric (calculateSedimentTransport params (newVelocity params t g i) (h (?hg ! i))
        (sedimentThickness (g ! i)))"
      using rate [OF i] unfolding eq .
    from transport_bounded [OF this] obtain r where "qs (?hg ! i) = Num r" "\<bar>r\<bar> \<le> 0.02"
      unfolding eq by blast
    then have q: "\<bar>qs (?s ! i)\<bar> \<le> Num 0.02"
      using len i by (simp add: stepGrid_frame)
    have pos: "x (?s ! i) = x (g ! i)"
      using len i by (simp add: stepGrid_frame)
    consider "i = 0" | "i = gridSize - 1" | "i = 1 \<or> i = gridSize - 2"
      | "2 \<le> i \<and> i < gridSize - 2"
      using i by linarith
    then have "Num 0 \<le> sedimentThickness (?s ! i) \<and>
        sedimentThickness (?s ! i) \<le> regionCap (x (g ! i))"
    proof cases
      case 1
      then show ?thesis
        using stepGrid_boundary(1) [OF len, of params t] cell(3,4) [OF idx(2)]
          admissible_region(1) [OF assms(1)]
        by simp
    next
      case 2
      then show ?thesis
        using stepGrid_boundary(4) [OF len, of params t] cell(3,4) [OF idx(4)]
          admissible_region(2) [OF assms(1)]
        by simp
    next
      case 3
      then have "?s ! i = ?hg ! i"
        using len by (simp add: stepGrid_buffer)
      then show ?thesis
        using cell(3,4) [OF i] len i by (simp add: hydroGrid_frame)
    next
      case 4
      then have "i + 1 < gridSize" "i - 1 < gridSize"
        by auto
      then have "numeric (bedChangeAt params ?hg i)"
        using rate assms(2) by (simp add: bedChange_numeric forcingDefined_def)
      moreover have "?s ! i = bedPoint (bedChangeAt params ?hg i) (?hg ! i)"
        using 4 len by (simp add: stepGrid_interior)
      moreover have "sedimentThickness (?hg ! i) = sedimentThickness (g ! i)"
        "x (?hg ! i) = x (g ! i)"
        using len i by (simp_all add: hydroGrid_frame)
      ultimately show ?thesis
        using bedPoint_bounds [of "?hg ! i" "bedChangeAt params ?hg i"] cell(3) [OF i]
        by simp
    qed
    then show ?thesis
      using q pos by simp
  qed
  have "updateSimulation params g t = Some ?s"
    using len by (rule updateSimulation_Some)
  then show ?thesis
    using hydro bed by blast
qed

section \<open>Enclosures of the cosine and of pi\<close>

text \<open>
  The cosine differs from its Taylor polynomial of degree 12 by at most \<open>|a|^14 / 14!\<close>.
  Since the cosine is positive at 1.570796 and negative at 1.570797, \<open>pi\<close> lies between
  3.141592 and 3.141594.
\<close>

lemma Maclaurin_cos_bound:
  "\<bar>cos a - (\<Sum>m<n. cos_coeff m * a ^ m)\<bar> \<le> \<bar>a\<bar> ^ n / fact n"
proof -
  obtain t where "cos a = (\<Sum>m<n. cos_coeff m * a ^ m) + (cos (t + 1/2 * real n * pi) / fact n) * a ^ n"
    using Maclaurin_cos_expansion [of a n] by blast
  then have "\<bar>cos a - (\<Sum>m<n. cos_coeff m * a ^ m)\<bar> =
      \<bar>cos (t + 1/2 * real n * pi)\<bar> * (\<bar>a\<bar> ^ n / fact n)"
    by (simp add: abs_mult power_abs)
  also have "\<dots> \<le> 1 * (\<bar>a\<bar> ^ n / fact n)"
    by (rule mult_right_mono) simp_all
  finally show ?thesis
    by simp
qed

lemma sum_below_14:
  "(\<Sum>m<14. f m) = f 0 + f 1 + f 2 + f 3 + f 4 + f 5 + f 6 + f 7 + f 8 + f 9 + f 10 + f 11 +
     f 12 + f (13::nat)"
  for f :: "nat \<Rightarrow> real"
  by (simp add: lessThan_nat_numeral lessThan_Suc)

lemma cos_coeff_values:
  "cos_coeff 0 = 1" "cos_coeff 1 = 0" "cos_coeff 2 = - 1 / 2" "cos_coeff 3 = 0"
  "cos_coeff 4 = 1 / 24" "cos_coeff 5 = 0" "cos_coeff 6 = - 1 / 720" "cos_coeff 7 = 0"
  "cos_coeff 8 = 1 / 40320" "cos_coeff 9 = 0" "cos_coeff 10 = - 1 / 3628800" "cos_coeff 11 = 0"
  "cos_coeff 12 = 1 / 479001600" "cos_coeff 13 = 0"
  by (simp_all add: cos_coeff_def fact_numeral)

lemma cos_enclosure: "\<bar>cos a - cosTaylor a\<bar> \<le> \<bar>a\<bar> ^ 14 / 87178291200"
proof -
  have "(\<Sum>m<14. cos_coeff m * a ^ m) = cosTaylor a"
    unfolding sum_below_14 cos_coeff_values cosTaylor_def by simp
  moreover have "fact 14 = (87178291200 :: real)"
    by (simp add: fact_numeral)
  ultimately show ?thesis
    using Maclaurin_cos_bound [of a 14] by simp
qed

lemma pi_lower: "3.141592 < pi"
proof -
  have "\<bar>cos 1.570796 - cosTaylor 1.570796\<bar> \<le> \<bar>1.570796\<bar> ^ 14 / 87178291200"
    by (rule cos_enclosure)
  moreover have "\<bar>1.570796 :: real\<bar> ^ 14 / 87178291200 < cosTaylor 1.570796"
    by (simp add: cosTaylor_def power_divide)
  ultimately have pos: "0 < cos (1.570796 :: real)"
    by linarith
  have False if "pi / 2 \<le> 1.570796"
  proof -
    have "(1.570796 :: real) \<le> 2"
      by simp
    then have "(1.570796 :: real) \<le> pi"
      using pi_ge_two by linarith
    then have "cos (1.570796 :: real) \<le> cos (pi / 2)"
      using that by (intro cos_monotone_0_pi_le) simp_all
    then show False
      using pos by simp
  qed
  then show ?thesis
    by fastforce
qed

lemma pi_upper: "pi < 3.141594"
proof -
  have "\<bar>cos 1.570797 - cosTaylor 1.570797\<bar> \<le> \<bar>1.570797\<bar> ^ 14 / 87178291200"
    by (rule cos_enclosure)
  moreover have "cosTaylor 1.570797 < - (\<bar>1.570797 :: real\<bar> ^ 14 / 87178291200)"
    by (simp add: cosTaylor_def power_divide)
  ultimately have neg: "cos (1.570797 :: real) < 0"
    by linarith
  have False if "1.570797 \<le> pi / 2"
  proof -
    have "cos (pi / 2) \<le> cos (1.570797 :: real)"
      using that pi_ge_two by (intro cos_monotone_0_pi_le) simp_all
    then show False
      using neg by simp
  qed
  then show ?thesis
    by fastforce
qed

lemma sin_small: "0.049979 < sin (0.05 :: real)" "sin (0.05 :: real) < 0.04998"
proof -
  have "(\<Sum>m<5. sin_coeff m * (0.05 :: real) ^ m) = 0.05 - 0.05 ^ 3 / 6"
    by (simp add: lessThan_nat_numeral lessThan_Suc sin_coeff_def fact_numeral)
  then have "\<bar>sin (0.05 :: real) - (0.05 - 0.05 ^ 3 / 6)\<bar> \<le> inverse (fact 5) * \<bar>0.05\<bar> ^ 5"
    using Maclaurin_sin_bound [of "0.05" 5] by simp
  moreover have "inverse (fact 5) * \<bar>0.05 :: real\<bar> ^ 5 < 0.00000001"
    by (simp add: fact_numeral power_divide)
  moreover have "(0.049979 :: real) + 0.00000001 < 0.05 - 0.05 ^ 3 / 6"
    "(0.05 :: real) - 0.05 ^ 3 / 6 + 0.00000001 < 0.04998"
    by (simp_all add: power_divide)
  ultimately show "0.049979 < sin (0.05 :: real)" "sin (0.05 :: real) < 0.04998"
    by linarith+
qed

section \<open>A first frame in the gap of the transport formula\<close>

text \<open>
  The first frame of a run with the parameters \<open>gapParams\<close> on the freshly created grid,
  at cells 39 to 43 (\<open>x\<close> = 195 to 215). The wave phase at cell 41 is about -1.9313, the
  velocity of the cell after the momentum update is about -0.0038587 and its depth about
  4.17, so that its shear stress is about 0.14572: above the critical stress 0.1456785
  and below the critical stress plus 0.0001. The velocities of cells 40 and 42 are
  about 0.039 and -0.0057, and their shear stress lies well above the gap.
\<close>

lemma gapParams_fields:
  "grainSize gapParams = Num 0.3" "simulationSpeed gapParams = Num 1.7"
  by (simp_all add: gapParams_def)

lemma gap_clock: "Num 0 + dt * simulationSpeed gapParams = gapTime"
  by (simp add: dt_def gapParams_fields gapTime_def)

lemma initialGrid_gap:
  "initialGrid gapParams ! 39 =
     \<lparr>x = Num 195, h = Num 5.91, u = Num 0, zb = Num (- 5.91), qs = Num 0,
      sedimentThickness = Num 0.14, bedrockLevel = Num (- 6.05),
      initialSedimentThickness = Num 0.14, cumulativeChange = Num 0\<rparr>"
  "initialGrid gapParams ! 40 =
     \<lparr>x = Num 200, h = Num 5.44, u = Num 0, zb = Num (- 5.44), qs = Num 0,
      sedimentThickness = Num 0.56, bedrockLevel = Num (- 6),
      initialSedimentThickness = Num 0.56, cumulativeChange = Num 0\<rparr>"
  "initialGrid gapParams ! 41 =
     \<lparr>x = Num 205, h = Num 5.39, u = Num 0, zb = Num (- 5.39), qs = Num 0,
      sedimentThickness = Num 0.56, bedrockLevel = Num (- 5.95),
      initialSedimentThickness = Num 0.56, cumulativeChange = Num 0\<rparr>"
  "initialGrid gapParams ! 42 =
     \<lparr>x = Num 210, h = Num 5.34, u = Num 0, zb = Num (- 5.34), qs = Num 0,
      sedimentThickness = Num 0.56, bedrockLevel = Num (- 5.9),
      initialSedimentThickness = Num 0.56, cumulativeChange = Num 0\<rparr>"
  "initialGrid gapParams ! 43 =
     \<lparr>x = Num 215, h = Num 5.29, u = Num 0, zb = Num (- 5.29), qs = Num 0,
      sedimentThickness = Num 0.56, bedrockLevel = Num (- 5.85),
      initialSedimentThickness = Num 0.56, cumulativeChange = Num 0\<rparr>"
  by (simp_all add: initialGrid_nth gridSize_def makePoint_def Let_def dx_eq gapParams_def)

lemma initialGrid_gap_caps:
  "list_all (\<lambda>c. Num 0 \<le> sedimentThickness c \<and> sedimentThickness c \<le> regionCap (x c))
     (initialGrid gapParams)"
  by (simp add: initialGrid_map list_all_iff makePoint_def Let_def gapParams_def regionCap_def dx_eq)

lemma gap_forcing:
  "getTidalLevel gapParams gapTime = Num gapTide"
  "getWaveLevel gapParams gapTime (Num pos) = Num (1.3 * sin (gapPhase pos))"
  "waveForce gapParams gapTime (Num pos) = Num (0.26 * cos (gapPhase pos))"
  by (simp_all add: getTidalLevel_def getWaveLevel_def waveForce_def gapParams_def Math_PI_def
      gapTide_def gapPhase_def gapTime_def)

subsection \<open>The forcing as real numbers\<close>

lemma gapTide_bounds: "0 \<le> gapTide" "gapTide \<le> 0.00004"
proof -
  let ?a = "2 * pi * 0.17 / (13 * 3600)"
  have a: "0 \<le> ?a" "?a \<le> 0.000025" "?a \<le> pi"
    using pi_lower pi_upper by simp_all
  then have "0 \<le> sin ?a"
    by (intro sin_ge_zero)
  moreover have "sin ?a \<le> ?a"
    using a(1) by (rule sin_x_le_x)
  ultimately show "0 \<le> gapTide" "gapTide \<le> 0.00004"
    using a(2) by (simp_all add: gapTide_def)
qed

lemma phase_bounds: "1.9313175 < - gapPhase 205" "- gapPhase 205 < 1.9313177"
  using pi_lower pi_upper by (simp_all add: gapPhase_def)

lemma phase_cos: "- 0.352763 < cos (gapPhase 205)" "cos (gapPhase 205) < - 0.352761"
proof -
  let ?a = "- gapPhase 205"
  have range: "0 \<le> ?a" "?a \<le> pi" "(1.9313177 :: real) \<le> pi"
    using phase_bounds pi_lower by simp_all
  have "cos 1.9313177 \<le> cos ?a"
    using phase_bounds range by (intro cos_monotone_0_pi_le) simp_all
  moreover have "\<bar>cos 1.9313177 - cosTaylor 1.9313177\<bar> \<le> \<bar>1.9313177\<bar> ^ 14 / 87178291200"
    by (rule cos_enclosure)
  moreover have "- 0.352763 < cosTaylor 1.9313177 - \<bar>1.9313177 :: real\<bar> ^ 14 / 87178291200"
    by (simp add: cosTaylor_def power_divide)
  ultimately have "- 0.352763 < cos ?a"
    by linarith
  then show "- 0.352763 < cos (gapPhase 205)"
    by simp
  have "cos ?a \<le> cos 1.9313175"
    using phase_bounds range by (intro cos_monotone_0_pi_le) simp_all
  moreover have "\<bar>cos 1.9313175 - cosTaylor 1.9313175\<bar> \<le> \<bar>1.9313175\<bar> ^ 14 / 87178291200"
    by (rule cos_enclosure)
  moreover have "cosTaylor 1.9313175 + \<bar>1.9313175 :: real\<bar> ^ 14 / 87178291200 < - 0.352761"
    by (simp add: cosTaylor_def power_divide)
  ultimately have "cos ?a < - 0.352761"
    by linarith
  then show "cos (gapPhase 205) < - 0.352761"
    by simp
qed

lemma phase_sin: "sin (gapPhase 205) < - 0.84"
proof -
  let ?a = "- gapPhase 205"
  have range: "0 \<le> ?a" "?a \<le> pi"
    using phase_bounds pi_lower by simp_all
  then have pos: "0 \<le> sin ?a"
    by (rule sin_ge_zero)
  have "\<bar>cos ?a\<bar> < 0.36"
    using phase_cos by simp
  then have "\<bar>cos ?a\<bar>\<^sup>2 < 0.36\<^sup>2"
    by (intro power_strict_mono) simp_all
  then have "(cos ?a)\<^sup>2 < 0.36\<^sup>2"
    by simp
  moreover have "(sin ?a)\<^sup>2 + (cos ?a)\<^sup>2 = 1"
    by (rule sin_cos_squared_add)
  ultimately have "0.84\<^sup>2 < (sin ?a)\<^sup>2"
    by (simp add: power2_eq_square)
  then have "0.84 < sin ?a"
    using pos by (rule power2_less_imp_less)
  then show ?thesis
    by simp
qed

lemma phase_diff:
  "sin (gapPhase (pos + 5)) - sin (gapPhase (pos - 5)) = - 2 * sin 0.05 * cos (gapPhase pos)"
proof -
  have "(gapPhase (pos + 5) - gapPhase (pos - 5)) / 2 = - 0.05"
    "(gapPhase (pos + 5) + gapPhase (pos - 5)) / 2 = gapPhase pos"
    by (simp_all add: gapPhase_def field_simps)
  then show ?thesis
    using sin_diff_sin [of "gapPhase (pos + 5)" "gapPhase (pos - 5)"] by simp
qed

lemma cos_small: "0.998 < cos (0.05 :: real)"
proof -
  have "\<bar>cos 0.05 - cosTaylor 0.05\<bar> \<le> \<bar>0.05\<bar> ^ 14 / 87178291200"
    by (rule cos_enclosure)
  moreover have "0.998 < cosTaylor 0.05 - \<bar>0.05 :: real\<bar> ^ 14 / 87178291200"
    by (simp add: cosTaylor_def power_divide)
  ultimately show ?thesis
    by linarith
qed

lemma phase_cos_next: "cos (gapPhase 210) < - 0.394"
proof -
  define c where "c = cos (gapPhase 205)"
  define s where "s = sin (gapPhase 205)"
  define c0 where "c0 = cos (0.05 :: real)"
  define s0 where "s0 = sin (0.05 :: real)"
  have "gapPhase 210 = gapPhase 205 - 0.05"
    by (simp add: gapPhase_def)
  then have sum: "cos (gapPhase 210) = c * c0 + s * s0"
    unfolding c_def s_def c0_def s0_def by (simp only: cos_diff)
  have c: "c < - 0.352761" and s: "s < - 0.84" and c0: "0.998 < c0" and s0: "0.049979 < s0"
    unfolding c_def s_def c0_def s0_def by (rule phase_cos phase_sin cos_small sin_small)+
  have "c * c0 < - 0.352761 * c0"
    using c c0 by (intro mult_strict_right_mono) simp_all
  moreover have "- 0.352761 * c0 < - 0.352761 * 0.998"
    using c0 by simp
  moreover have "s * s0 < - 0.84 * s0"
    using s s0 by (intro mult_strict_right_mono) simp_all
  moreover have "- 0.84 * s0 < - 0.84 * 0.049979"
    using s0 by simp
  ultimately show ?thesis
    unfolding sum by simp
qed

lemma gap_depth_bounds:
  "4 \<le> gapTide + 1.3 * sin (gapPhase 205) + 5.39"
  "gapTide + 1.3 * sin (gapPhase 205) + 5.39 \<le> 4.3"
proof -
  define s where "s = sin (gapPhase 205)"
  have "- 1 \<le> s" "s < - 0.84"
    unfolding s_def by (rule sin_ge_minus_one, rule phase_sin)
  then show "4 \<le> gapTide + 1.3 * sin (gapPhase 205) + 5.39"
    "gapTide + 1.3 * sin (gapPhase 205) + 5.39 \<le> 4.3"
    unfolding s_def [symmetric] using gapTide_bounds by simp_all
qed

lemma gap_velocity_bounds:
  fixes C S :: real
  assumes "- 0.352763 < C" and "C < - 0.352761" and "0.049979 < S" and "S < 0.04998"
  shows "- 0.0038589 < 0.1 * C * (2.5506 * S + 0.26) + 0.00981"
    and "0.1 * C * (2.5506 * S + 0.26) + 0.00981 < - 0.0038586"
proof -
  define K where "K = 2.5506 * S + 0.26"
  have K: "0.387476 < K" "K < 0.387479"
    using assms(3,4) by (simp_all add: K_def)
  have "- 0.352763 * K < C * K"
    using assms(1) K(1) by (intro mult_strict_right_mono) simp_all
  moreover have "- 0.352763 * 0.387479 < - 0.352763 * K"
    using K(2) by simp
  ultimately have low: "- 0.352763 * 0.387479 < C * K"
    by linarith
  have "C * K < - 0.352761 * K"
    using assms(2) K(1) by (intro mult_strict_right_mono) simp_all
  moreover have "- 0.352761 * K < - 0.352761 * 0.387476"
    using K(1) by simp
  ultimately have high: "C * K < - 0.352761 * 0.387476"
    by linarith
  show "- 0.0038589 < 0.1 * C * (2.5506 * S + 0.26) + 0.00981"
    using low unfolding K_def [symmetric] by simp
  show "0.1 * C * (2.5506 * S + 0.26) + 0.00981 < - 0.0038586"
    using high unfolding K_def [symmetric] by simp
qed

text \<open>
  A velocity between -0.0038589 and -0.0038586 at a depth between 4 and 4.3 gives a shear
  stress in the gap of the grain size 0.3.
\<close>

lemma gap_shear_bounds:
  fixes v d :: real
  assumes "- 0.0038589 < v" and "v < - 0.0038586" and "4 \<le> d" and "d \<le> 4.3"
  shows "0.03 * 1650 * 9.81 * (0.3 / 1000) < \<bar>1000 * 9.81 * d * \<bar>v\<bar> * v / (d + 0.01)\<bar>"
    and "\<bar>1000 * 9.81 * d * \<bar>v\<bar> * v / (d + 0.01)\<bar> < 0.03 * 1650 * 9.81 * (0.3 / 1000) + 0.0001"
proof -
  define r where "r = d / (d + 0.01)"
  define w where "w = v\<^sup>2"
  have shear: "\<bar>1000 * 9.81 * d * \<bar>v\<bar> * v / (d + 0.01)\<bar> = 9810 * (r * w)"
    using assms(3) by (simp add: r_def w_def abs_mult power2_eq_square)
  have r: "4 / 4.01 \<le> r" "r \<le> 4.3 / 4.31"
    using assms(3,4) by (simp_all add: r_def field_simps)
  have v: "\<bar>v\<bar> < 0.0038589" "0.0038586 < \<bar>v\<bar>"
    using assms(1,2) by simp_all
  have "\<bar>v\<bar> ^ 2 < 0.0038589 ^ 2"
    using v(1) by (rule power_strict_mono) simp_all
  moreover have "0.0038586 ^ 2 < \<bar>v\<bar> ^ 2"
    using v(2) by (rule power_strict_mono) simp_all
  ultimately have w: "0.0038586\<^sup>2 < w" "w < 0.0038589\<^sup>2"
    unfolding w_def power2_abs by simp_all
  have "4 / 4.01 * 0.0038586\<^sup>2 < r * w"
    using r(1) w(1) by (intro mult_le_less_imp_less) simp_all
  moreover have "(0.03 * 1650 * 9.81 * (0.3 / 1000) :: real) < 9810 * (4 / 4.01 * 0.0038586\<^sup>2)"
    by (simp add: power2_eq_square)
  ultimately show "0.03 * 1650 * 9.81 * (0.3 / 1000) < \<bar>1000 * 9.81 * d * \<bar>v\<bar> * v / (d + 0.01)\<bar>"
    unfolding shear by linarith
  have "0 < r" "0 \<le> w"
    using r(1) by (simp_all add: w_def)
  then have "r * w < 4.3 / 4.31 * 0.0038589\<^sup>2"
    using r(2) w(2) by (intro mult_le_less_imp_less) simp_all
  moreover have "9810 * (4.3 / 4.31 * 0.0038589\<^sup>2) < (0.03 * 1650 * 9.81 * (0.3 / 1000) + 0.0001 :: real)"
    by (simp add: power2_eq_square)
  ultimately show "\<bar>1000 * 9.81 * d * \<bar>v\<bar> * v / (d + 0.01)\<bar> < 0.03 * 1650 * 9.81 * (0.3 / 1000) + 0.0001"
    unfolding shear by linarith
qed

text \<open>
  A shear stress above the gap: a velocity of at least 0.0053 in absolute value at a depth
  of at least 4.
\<close>

lemma above_gap:
  fixes v d :: real
  assumes "0.0053 \<le> \<bar>v\<bar>" and "4 \<le> d"
  shows "\<not> shearInGap 0.3 v d"
proof -
  define r where "r = d / (d + 0.01)"
  define w where "w = v\<^sup>2"
  have shear: "\<bar>1000 * 9.81 * d * \<bar>v\<bar> * v / (d + 0.01)\<bar> = 9810 * (r * w)"
    using assms(2) by (simp add: r_def w_def abs_mult power2_eq_square)
  have r: "4 / 4.01 \<le> r"
    using assms(2) by (simp add: r_def field_simps)
  have "0.0053 ^ 2 \<le> \<bar>v\<bar> ^ 2"
    using assms(1) by (rule power_mono) simp
  then have w: "0.0053\<^sup>2 \<le> w"
    unfolding w_def power2_abs by simp
  have "4 / 4.01 * 0.0053\<^sup>2 \<le> r * w"
    using r w by (intro mult_mono) simp_all
  moreover have "(0.03 * 1650 * 9.81 * (0.3 / 1000) + 0.0001 :: real) < 9810 * (4 / 4.01 * 0.0053\<^sup>2)"
    by (simp add: power2_eq_square)
  ultimately show ?thesis
    unfolding shearInGap_def shear by linarith
qed

subsection \<open>The cells of the frame\<close>

lemma gap_depths:
  "h (hydroGrid gapParams gapTime (initialGrid gapParams) ! 39) =
     Num (gapTide + 1.3 * sin (gapPhase 195) + 5.91)"
  "h (hydroGrid gapParams gapTime (initialGrid gapParams) ! 40) =
     Num (gapTide + 1.3 * sin (gapPhase 200) + 5.44)"
  "h (hydroGrid gapParams gapTime (initialGrid gapParams) ! 41) =
     Num (gapTide + 1.3 * sin (gapPhase 205) + 5.39)"
  "h (hydroGrid gapParams gapTime (initialGrid gapParams) ! 42) =
     Num (gapTide + 1.3 * sin (gapPhase 210) + 5.34)"
  "h (hydroGrid gapParams gapTime (initialGrid gapParams) ! 43) =
     Num (gapTide + 1.3 * sin (gapPhase 215) + 5.29)"
proof -
  have len: "gridSize \<le> length (initialGrid gapParams)"
    by (simp add: initialGrid_length)
  have i: "39 < gridSize" "40 < gridSize" "41 < gridSize" "42 < gridSize" "43 < gridSize"
    by (simp_all add: gridSize_def)
  have cell: "x (initialGrid gapParams ! 39) = Num 195" "zb (initialGrid gapParams ! 39) = Num (- 5.91)"
    "x (initialGrid gapParams ! 40) = Num 200" "zb (initialGrid gapParams ! 40) = Num (- 5.44)"
    "x (initialGrid gapParams ! 41) = Num 205" "zb (initialGrid gapParams ! 41) = Num (- 5.39)"
    "x (initialGrid gapParams ! 42) = Num 210" "zb (initialGrid gapParams ! 42) = Num (- 5.34)"
    "x (initialGrid gapParams ! 43) = Num 215" "zb (initialGrid gapParams ! 43) = Num (- 5.29)"
    by (simp_all add: initialGrid_gap)
  have wet: "max 0 (gapTide + 1.3 * sin (gapPhase pos) + z) = gapTide + 1.3 * sin (gapPhase pos) + z"
    if "5 \<le> z" for pos z
  proof -
    have "0 \<le> gapTide + 1.3 * sin (gapPhase pos) + z"
      using that gapTide_bounds(1) sin_ge_minus_one [of "gapPhase pos"] by linarith
    then show ?thesis
      by (simp add: max_def)
  qed
  show "h (hydroGrid gapParams gapTime (initialGrid gapParams) ! 39) =
     Num (gapTide + 1.3 * sin (gapPhase 195) + 5.91)"
    unfolding hydroGrid_fields(1) [OF len i(1)] cell gap_forcing
    using wet [of "5.91" 195] by simp
  show "h (hydroGrid gapParams gapTime (initialGrid gapParams) ! 40) =
     Num (gapTide + 1.3 * sin (gapPhase 200) + 5.44)"
    unfolding hydroGrid_fields(1) [OF len i(2)] cell gap_forcing
    using wet [of "5.44" 200] by simp
  show "h (hydroGrid gapParams gapTime (initialGrid gapParams) ! 41) =
     Num (gapTide + 1.3 * sin (gapPhase 205) + 5.39)"
    unfolding hydroGrid_fields(1) [OF len i(3)] cell gap_forcing
    using wet [of "5.39" 205] by simp
  show "h (hydroGrid gapParams gapTime (initialGrid gapParams) ! 42) =
     Num (gapTide + 1.3 * sin (gapPhase 210) + 5.34)"
    unfolding hydroGrid_fields(1) [OF len i(4)] cell gap_forcing
    using wet [of "5.34" 210] by simp
  show "h (hydroGrid gapParams gapTime (initialGrid gapParams) ! 43) =
     Num (gapTide + 1.3 * sin (gapPhase 215) + 5.29)"
    unfolding hydroGrid_fields(1) [OF len i(5)] cell gap_forcing
    using wet [of "5.29" 215] by simp
qed

lemma gap_deep: "4 \<le> gapTide + 1.3 * sin (gapPhase pos) + z" if "5.3 \<le> z"
  using that gapTide_bounds(1) sin_ge_minus_one [of "gapPhase pos"] by linarith

text \<open>
  The momentum update of a cell at rest, between numeric depths.
\<close>

lemma velocity_from_rest:
  assumes "gridSize \<le> length g" and "1 \<le> k" and "k < gridSize - 1"
    and "h (hydroGrid params t g ! (k - 1)) = Num a"
    and "h (hydroGrid params t g ! k) = Num d"
    and "h (hydroGrid params t g ! (k + 1)) = Num b"
    and "u (g ! k) = Num 0" and "waveForce params t (x (g ! k)) = Num f" and "0.05 < d"
  shows "newVelocity params t g k = Num (max (- 2) (min 2 (f / 10 - 0.0981 * (b - a))))"
proof -
  have "d + 0.01 \<noteq> 0"
    using assms(9) by simp
  then have "newVelocity params t g k =
      Num (max (- 2) (min 2 (0 - 0.1 * (9.81 * ((b - a) / (2 * 5)) +
        0.02 * 0 * \<bar>0\<bar> / (d + 0.01) - f))))"
    unfolding newVelocity_interior [OF assms(1-3)] assms(4-8)
    using assms(9) by (simp add: dx_eq dt_def)
  moreover have "0 - 0.1 * (9.81 * ((b - a) / (2 * 5)) + 0.02 * 0 * \<bar>0\<bar> / (d + 0.01) - f) =
      f / 10 - 0.0981 * (b - a)"
    by (simp add: field_simps)
  ultimately show ?thesis
    by simp
qed

lemma gap_velocities:
  "newVelocity gapParams gapTime (initialGrid gapParams) 40 =
     Num (0.1 * cos (gapPhase 200) * (2.5506 * sin 0.05 + 0.26) + 0.051012)"
  "newVelocity gapParams gapTime (initialGrid gapParams) 41 =
     Num (0.1 * cos (gapPhase 205) * (2.5506 * sin 0.05 + 0.26) + 0.00981)"
  "newVelocity gapParams gapTime (initialGrid gapParams) 42 =
     Num (0.1 * cos (gapPhase 210) * (2.5506 * sin 0.05 + 0.26) + 0.00981)"
proof -
  let ?g = "initialGrid gapParams"
  have len: "gridSize \<le> length ?g"
    by (simp add: initialGrid_length)
  have i: "(1::nat) \<le> 40" "40 < gridSize - 1" "(1::nat) \<le> 41" "41 < gridSize - 1"
    "(1::nat) \<le> 42" "42 < gridSize - 1"
    by (simp_all add: gridSize_def)
  define K where "K = 2.5506 * sin (0.05 :: real) + 0.26"
  have K: "0 < K" "K < 0.39"
    using sin_small by (simp_all add: K_def)
  have free: "max (- 2) (min 2 (0.1 * cos a * K + c)) = 0.1 * cos a * K + c"
    if "0 \<le> c" and "c \<le> 1" for a c :: real
  proof -
    define p where "p = cos a * K"
    have "\<bar>p\<bar> \<le> 1 * K"
      unfolding p_def abs_mult using K(1) by (intro mult_mono) simp_all
    then have "\<bar>p\<bar> \<le> 0.39"
      using K(2) by simp
    then have "p \<le> 0.39" "- p \<le> 0.39"
      by (rule abs_le_D1, rule abs_le_D2)
    moreover have "0.1 * cos a * K + c = 0.1 * p + c"
      by (simp add: p_def)
    ultimately show ?thesis
      using that by (simp add: max_def min_def)
  qed
  have rest: "u (?g ! 40) = Num 0" "u (?g ! 41) = Num 0" "u (?g ! 42) = Num 0"
    and force: "waveForce gapParams gapTime (x (?g ! 40)) = Num (0.26 * cos (gapPhase 200))"
      "waveForce gapParams gapTime (x (?g ! 41)) = Num (0.26 * cos (gapPhase 205))"
      "waveForce gapParams gapTime (x (?g ! 42)) = Num (0.26 * cos (gapPhase 210))"
    by (simp_all add: initialGrid_gap gap_forcing)
  have deep: "0.05 < gapTide + 1.3 * sin (gapPhase 200) + 5.44"
    "0.05 < gapTide + 1.3 * sin (gapPhase 205) + 5.39"
    "0.05 < gapTide + 1.3 * sin (gapPhase 210) + 5.34"
    using gap_deep [of "5.44" 200] gap_deep [of "5.39" 205] gap_deep [of "5.34" 210]
    by simp_all
  have before: "h (hydroGrid gapParams gapTime ?g ! (40 - 1)) =
      Num (gapTide + 1.3 * sin (gapPhase 195) + 5.91)"
    "h (hydroGrid gapParams gapTime ?g ! (41 - 1)) =
      Num (gapTide + 1.3 * sin (gapPhase 200) + 5.44)"
    "h (hydroGrid gapParams gapTime ?g ! (42 - 1)) =
      Num (gapTide + 1.3 * sin (gapPhase 205) + 5.39)"
    and after: "h (hydroGrid gapParams gapTime ?g ! (40 + 1)) =
      Num (gapTide + 1.3 * sin (gapPhase 205) + 5.39)"
    "h (hydroGrid gapParams gapTime ?g ! (41 + 1)) =
      Num (gapTide + 1.3 * sin (gapPhase 210) + 5.34)"
    "h (hydroGrid gapParams gapTime ?g ! (42 + 1)) =
      Num (gapTide + 1.3 * sin (gapPhase 215) + 5.29)"
    by (simp_all add: gap_depths)
  have diff: "sin (gapPhase 205) - sin (gapPhase 195) = - 2 * sin 0.05 * cos (gapPhase 200)"
    "sin (gapPhase 210) - sin (gapPhase 200) = - 2 * sin 0.05 * cos (gapPhase 205)"
    "sin (gapPhase 215) - sin (gapPhase 205) = - 2 * sin 0.05 * cos (gapPhase 210)"
    using phase_diff [of 200] phase_diff [of 205] phase_diff [of 210] by simp_all
  have "newVelocity gapParams gapTime ?g 40 =
      Num (max (- 2) (min 2 (0.26 * cos (gapPhase 200) / 10 - 0.0981 *
        ((gapTide + 1.3 * sin (gapPhase 205) + 5.39) - (gapTide + 1.3 * sin (gapPhase 195) + 5.91)))))"
    by (rule velocity_from_rest [OF len i(1,2) before(1) gap_depths(2) after(1) rest(1)
          force(1) deep(1)])
  also have "0.26 * cos (gapPhase 200) / 10 - 0.0981 *
        ((gapTide + 1.3 * sin (gapPhase 205) + 5.39) - (gapTide + 1.3 * sin (gapPhase 195) + 5.91)) =
      0.26 * cos (gapPhase 200) / 10 - 0.0981 *
        (1.3 * (sin (gapPhase 205) - sin (gapPhase 195)) - 0.52)"
    by simp
  also have "\<dots> = 0.1 * cos (gapPhase 200) * K + 0.051012"
    unfolding diff K_def by (simp add: field_simps)
  finally have "newVelocity gapParams gapTime ?g 40 =
     Num (max (- 2) (min 2 (0.1 * cos (gapPhase 200) * K + 0.051012)))" .
  moreover have "max (- 2) (min 2 (0.1 * cos (gapPhase 200) * K + 0.051012)) =
      0.1 * cos (gapPhase 200) * K + 0.051012"
    by (rule free) simp_all
  ultimately show "newVelocity gapParams gapTime ?g 40 =
     Num (0.1 * cos (gapPhase 200) * (2.5506 * sin 0.05 + 0.26) + 0.051012)"
    unfolding K_def by simp
  have "newVelocity gapParams gapTime ?g 41 =
      Num (max (- 2) (min 2 (0.26 * cos (gapPhase 205) / 10 - 0.0981 *
        ((gapTide + 1.3 * sin (gapPhase 210) + 5.34) - (gapTide + 1.3 * sin (gapPhase 200) + 5.44)))))"
    by (rule velocity_from_rest [OF len i(3,4) before(2) gap_depths(3) after(2) rest(2)
          force(2) deep(2)])
  also have "0.26 * cos (gapPhase 205) / 10 - 0.0981 *
        ((gapTide + 1.3 * sin (gapPhase 210) + 5.34) - (gapTide + 1.3 * sin (gapPhase 200) + 5.44)) =
      0.26 * cos (gapPhase 205) / 10 - 0.0981 *
        (1.3 * (sin (gapPhase 210) - sin (gapPhase 200)) - 0.1)"
    by simp
  also have "\<dots> = 0.1 * cos (gapPhase 205) * K + 0.00981"
    unfolding diff K_def by (simp add: field_simps)
  finally have "newVelocity gapParams gapTime ?g 41 =
     Num (max (- 2) (min 2 (0.1 * cos (gapPhase 205) * K + 0.00981)))" .
  moreover have "max (- 2) (min 2 (0.1 * cos (gapPhase 205) * K + 0.00981)) =
      0.1 * cos (gapPhase 205) * K + 0.00981"
    by (rule free) simp_all
  ultimately show "newVelocity gapParams gapTime ?g 41 =
     Num (0.1 * cos (gapPhase 205) * (2.5506 * sin 0.05 + 0.26) + 0.00981)"
    unfolding K_def by simp
  have "newVelocity gapParams gapTime ?g 42 =
      Num (max (- 2) (min 2 (0.26 * cos (gapPhase 210) / 10 - 0.0981 *
        ((gapTide + 1.3 * sin (gapPhase 215) + 5.29) - (gapTide + 1.3 * sin (gapPhase 205) + 5.39)))))"
    by (rule velocity_from_rest [OF len i(5,6) before(3) gap_depths(4) after(3) rest(3)
          force(3) deep(3)])
  also have "0.26 * cos (gapPhase 210) / 10 - 0.0981 *
        ((gapTide + 1.3 * sin (gapPhase 215) + 5.29) - (gapTide + 1.3 * sin (gapPhase 205) + 5.39)) =
      0.26 * cos (gapPhase 210) / 10 - 0.0981 *
        (1.3 * (sin (gapPhase 215) - sin (gapPhase 205)) - 0.1)"
    by simp
  also have "\<dots> = 0.1 * cos (gapPhase 210) * K + 0.00981"
    unfolding diff K_def by (simp add: field_simps)
  finally have "newVelocity gapParams gapTime ?g 42 =
     Num (max (- 2) (min 2 (0.1 * cos (gapPhase 210) * K + 0.00981)))" .
  moreover have "max (- 2) (min 2 (0.1 * cos (gapPhase 210) * K + 0.00981)) =
      0.1 * cos (gapPhase 210) * K + 0.00981"
    by (rule free) simp_all
  ultimately show "newVelocity gapParams gapTime ?g 42 =
     Num (0.1 * cos (gapPhase 210) * (2.5506 * sin 0.05 + 0.26) + 0.00981)"
    unfolding K_def by simp
qed

lemma gap_velocity:
  "\<exists>v. newVelocity gapParams gapTime (initialGrid gapParams) 41 = Num v \<and>
       - 0.0038589 < v \<and> v < - 0.0038586"
  using gap_velocities(2) gap_velocity_bounds [OF phase_cos sin_small] by blast

lemma gap_velocity_beside:
  "\<exists>v. newVelocity gapParams gapTime (initialGrid gapParams) 40 = Num v \<and> 0.0053 \<le> \<bar>v\<bar>"
  "\<exists>v. newVelocity gapParams gapTime (initialGrid gapParams) 42 = Num v \<and> 0.0053 \<le> \<bar>v\<bar>"
proof -
  define K where "K = 2.5506 * sin (0.05 :: real) + 0.26"
  have K: "0.387 < K" "K < 0.39"
    using sin_small by (simp_all add: K_def)
  define p where "p = cos (gapPhase 200) * K"
  define q where "q = cos (gapPhase 210) * K"
  have product: "0.1 * cos (gapPhase 200) * K + 0.051012 = 0.1 * p + 0.051012"
    "0.1 * cos (gapPhase 210) * K + 0.00981 = 0.1 * q + 0.00981"
    by (simp_all add: p_def q_def)
  have "- 1 * K \<le> p"
    unfolding p_def using K(1) by (intro mult_right_mono) simp_all
  then have "0.0053 \<le> 0.1 * p + 0.051012"
    using K(2) by simp
  then have "0.0053 \<le> \<bar>0.1 * cos (gapPhase 200) * K + 0.051012\<bar>"
    unfolding product by simp
  then show "\<exists>v. newVelocity gapParams gapTime (initialGrid gapParams) 40 = Num v \<and> 0.0053 \<le> \<bar>v\<bar>"
    unfolding gap_velocities K_def by blast
  have "q < - 0.394 * K"
    unfolding q_def using phase_cos_next K(1) by (intro mult_strict_right_mono) simp_all
  moreover have "- 0.394 * K < - 0.394 * 0.387"
    using K(1) by simp
  ultimately have "0.1 * q + 0.00981 \<le> - 0.0053"
    by simp
  then have "0.0053 \<le> \<bar>0.1 * cos (gapPhase 210) * K + 0.00981\<bar>"
    unfolding product by simp
  then show "\<exists>v. newVelocity gapParams gapTime (initialGrid gapParams) 42 = Num v \<and> 0.0053 \<le> \<bar>v\<bar>"
    unfolding gap_velocities K_def by blast
qed

lemma gap_rate: "qs (hydroGrid gapParams gapTime (initialGrid gapParams) ! 41) = NaN"
proof -
  have len: "gridSize \<le> length (initialGrid gapParams)"
    by (simp add: initialGrid_length)
  have i: "41 < gridSize"
    by (simp add: gridSize_def)
  obtain v where v: "newVelocity gapParams gapTime (initialGrid gapParams) 41 = Num v"
    "- 0.0038589 < v" "v < - 0.0038586"
    using gap_velocity by blast
  define d where "d = gapTide + 1.3 * sin (gapPhase 205) + 5.39"
  have d: "h (hydroGrid gapParams gapTime (initialGrid gapParams) ! 41) = Num d"
    "4 \<le> d" "d \<le> 4.3"
    unfolding d_def by (rule gap_depths gap_depth_bounds)+
  have "transportActive 0.3 v d 0.56" "shearInGap 0.3 v d"
    using gap_shear_bounds [OF v(2,3) d(2,3)] d(2)
    by (simp_all add: transportActive_def shearInGap_def)
  then show ?thesis
    unfolding hydroGrid_fields(3) [OF len i] v(1) d(1)
    by (simp add: initialGrid_gap calculateSedimentTransport_Num [OF gapParams_fields(1)])
qed

lemma gap_rate_beside:
  "numeric (qs (hydroGrid gapParams gapTime (initialGrid gapParams) ! 40))"
  "numeric (qs (hydroGrid gapParams gapTime (initialGrid gapParams) ! 42))"
proof -
  have len: "gridSize \<le> length (initialGrid gapParams)"
    by (simp add: initialGrid_length)
  have i: "40 < gridSize" "42 < gridSize"
    by (simp_all add: gridSize_def)
  obtain v where v: "newVelocity gapParams gapTime (initialGrid gapParams) 40 = Num v"
    "0.0053 \<le> \<bar>v\<bar>"
    using gap_velocity_beside(1) by blast
  have "\<not> shearInGap 0.3 v (gapTide + 1.3 * sin (gapPhase 200) + 5.44)"
    using v(2) by (rule above_gap) (rule gap_deep, simp)
  then show "numeric (qs (hydroGrid gapParams gapTime (initialGrid gapParams) ! 40))"
    unfolding hydroGrid_fields(3) [OF len i(1)] v(1) gap_depths
    by (simp add: initialGrid_gap transport_numeric_iff [OF gapParams_fields(1)])
  obtain w where w: "newVelocity gapParams gapTime (initialGrid gapParams) 42 = Num w"
    "0.0053 \<le> \<bar>w\<bar>"
    using gap_velocity_beside(2) by blast
  have "\<not> shearInGap 0.3 w (gapTide + 1.3 * sin (gapPhase 210) + 5.34)"
    using w(2) by (rule above_gap) (rule gap_deep, simp)
  then show "numeric (qs (hydroGrid gapParams gapTime (initialGrid gapParams) ! 42))"
    unfolding hydroGrid_fields(3) [OF len i(2)] w(1) gap_depths
    by (simp add: initialGrid_gap transport_numeric_iff [OF gapParams_fields(1)])
qed

text \<open>
  The rate of cell 41 enters the bed change of cells 40 and 42, whose sediment thickness,
  bed elevation and cumulative change become \<open>NaN\<close>.
\<close>

lemma NaN_absorbs:
  "a + NaN = NaN" "NaN + a = NaN" "a - NaN = NaN" "NaN - a = NaN" "a * NaN = NaN" "NaN * a = NaN"
  "a / NaN = NaN" "NaN / a = NaN" "Math_max a NaN = NaN" "Math_max NaN a = NaN"
  "Math_min a NaN = NaN" "Math_min NaN a = NaN"
  by (cases a; simp)+

lemma bedChange_NaN:
  assumes "qs (g ! (k + 1)) = NaN \<or> qs (g ! (k - 1)) = NaN"
  shows "bedChangeAt params g k = NaN"
  using assms by (auto simp add: bedChangeAt_def NaN_absorbs)

lemma bedPoint_NaN:
  "sedimentThickness (bedPoint NaN c) = NaN" "zb (bedPoint NaN c) = NaN"
  "cumulativeChange (bedPoint NaN c) = NaN"
  by (simp_all add: bedPoint_fields NaN_absorbs)

lemma gap_bed:
  assumes "k = 40 \<or> k = 42"
  shows "sedimentThickness (stepGrid gapParams gapTime (initialGrid gapParams) ! k) = NaN"
    and "zb (stepGrid gapParams gapTime (initialGrid gapParams) ! k) = NaN"
    and "cumulativeChange (stepGrid gapParams gapTime (initialGrid gapParams) ! k) = NaN"
proof -
  let ?hg = "hydroGrid gapParams gapTime (initialGrid gapParams)"
  have len: "gridSize \<le> length (initialGrid gapParams)"
    by (simp add: initialGrid_length)
  have k: "2 \<le> k" "k < gridSize - 2"
    using assms by (auto simp add: gridSize_def)
  have "qs (?hg ! (k + 1)) = NaN \<or> qs (?hg ! (k - 1)) = NaN"
    using assms gap_rate by auto
  then have "bedChangeAt gapParams ?hg k = NaN"
    by (rule bedChange_NaN)
  then have point: "stepGrid gapParams gapTime (initialGrid gapParams) ! k = bedPoint NaN (?hg ! k)"
    using stepGrid_interior [OF len k, of gapParams gapTime] by simp
  show "sedimentThickness (stepGrid gapParams gapTime (initialGrid gapParams) ! k) = NaN"
    and "zb (stepGrid gapParams gapTime (initialGrid gapParams) ! k) = NaN"
    and "cumulativeChange (stepGrid gapParams gapTime (initialGrid gapParams) ! k) = NaN"
    unfolding point by (rule bedPoint_NaN)+
qed

text \<open>
  Cell 41 itself, between two cells with numeric rates, keeps a numeric thickness.
\<close>

lemma gap_thickness:
  "numeric (bedrockLevel (stepGrid gapParams gapTime (initialGrid gapParams) ! 41) +
     sedimentThickness (stepGrid gapParams gapTime (initialGrid gapParams) ! 41))"
proof -
  let ?hg = "hydroGrid gapParams gapTime (initialGrid gapParams)"
  have len: "gridSize \<le> length (initialGrid gapParams)"
    by (simp add: initialGrid_length)
  have i: "(2::nat) \<le> 41" "41 < gridSize - 2" "41 < gridSize"
    by (simp_all add: gridSize_def)
  have "numeric (bedChangeAt gapParams ?hg 41)"
    by (rule bedChange_numeric) (simp_all add: gap_rate_beside gapParams_fields)
  then obtain b where b: "bedChangeAt gapParams ?hg 41 = Num b"
    by (auto simp add: numeric_iff)
  show ?thesis
    unfolding stepGrid_interior [OF len i(1,2)] bedPoint_fields bedPoint_frame b
    using len i(3)
    by (simp add: hydroGrid_frame initialGrid_gap regionCap_def)
qed

lemma gap_step:
  "updateSimulation gapParams (initialGrid gapParams) gapTime =
     Some (stepGrid gapParams gapTime (initialGrid gapParams))"
  by (rule updateSimulation_Some) (simp add: initialGrid_length)

lemma gap_run:
  "frames [gapParams] (mount gapParams) =
     Some \<lparr>isRunning = False, timeRef = gapTime,
           grid = stepGrid gapParams gapTime (initialGrid gapParams)\<rparr>"
  by (simp add: mount_def animate_Some initialGrid_length gap_clock)

section \<open>Consistency of the bed\<close>

lemma strictEquals_same: "strictEquals a a \<longleftrightarrow> numeric a"
  by (cases a) simp_all

lemma strictEquals_NaN: "\<not> strictEquals a NaN" "\<not> strictEquals NaN a"
  by (cases a; simp)+

lemma bedPoint_consistent:
  "bedConsistent (bedPoint r c) \<longleftrightarrow>
     numeric (bedrockLevel (bedPoint r c) + sedimentThickness (bedPoint r c))"
  by (simp add: bedConsistent_def bedPoint_fields(3) bedPoint_frame strictEquals_same)

lemma NaN_inconsistent:
  assumes "sedimentThickness c = NaN"
  shows "\<not> bedConsistent c"
  using assms by (simp add: bedConsistent_def NaN_absorbs strictEquals_NaN)

lemma initialGrid_consistent:
  assumes "numeric (beachSlope params)" and "numeric (sedimentSupply params)"
  shows "list_all bedConsistent (initialGrid params)"
proof -
  obtain b s where "beachSlope params = Num b" "sedimentSupply params = Num s"
    using assms by (auto simp add: numeric_iff)
  then show ?thesis
    by (simp add: initialGrid_map list_all_iff bedConsistent_def makePoint_def Let_def dx_eq)
qed

lemma initialGrid_interior: "2 \<le> i \<Longrightarrow> i < gridSize - 2 \<Longrightarrow>
    numeric (bedrockLevel (initialGrid params ! i) + sedimentThickness (initialGrid params ! i)) \<Longrightarrow>
    bedConsistent (initialGrid params ! i)"
  by (simp add: initialGrid_nth bedConsistent_def makePoint_fields strictEquals_same)

lemma stepGrid_interiorConsistent:
  assumes "gridSize \<le> length g" and "bedConsistent (g ! 1)"
    and "bedConsistent (g ! (gridSize - 2))"
  shows "interiorConsistent (stepGrid params t g)"
proof -
  let ?s = "stepGrid params t g"
  let ?hg = "hydroGrid params t g"
  have idx: "1 < gridSize" "gridSize - 2 < gridSize"
    using gridSize_ge by auto
  have buffer: "bedConsistent (?s ! k)" if "k = 1 \<or> k = gridSize - 2" for k
  proof -
    have "?s ! k = ?hg ! k"
      using assms(1) that by (rule stepGrid_buffer)
    moreover have "k < gridSize" "bedConsistent (g ! k)"
      using that idx assms(2,3) by auto
    ultimately show ?thesis
      using assms(1) by (simp add: bedConsistent_def hydroGrid_frame)
  qed
  have inner: "bedConsistent (?s ! i)"
    if "2 \<le> i" and "i < gridSize - 2"
      and "numeric (bedrockLevel (?s ! i) + sedimentThickness (?s ! i))" for i
  proof -
    have "?s ! i = bedPoint (bedChangeAt params ?hg i) (?hg ! i)"
      using assms(1) that(1,2) by (rule stepGrid_interior)
    then show ?thesis
      using that(3) by (simp add: bedPoint_consistent)
  qed
  show ?thesis
    unfolding interiorConsistent_def using buffer inner by blast
qed

lemma stepGrid_boundaryBed:
  assumes "gridSize \<le> length g" and "bedConsistent (g ! 1)"
    and "bedConsistent (g ! (gridSize - 2))"
  shows "boundaryBed (stepGrid params t g)"
proof -
  have idx: "1 < gridSize" "gridSize - 2 < gridSize"
    using gridSize_ge by auto
  show ?thesis
    using assms(2,3) idx stepGrid_boundary [OF assms(1), of params t]
      stepGrid_frame(2) [OF assms(1) idx(1), of params t]
      stepGrid_frame(2) [OF assms(1) idx(2), of params t]
    by (simp add: boundaryBed_def bedConsistent_def)
qed

lemma mount_interiorConsistent:
  assumes "numeric (beachSlope start)" and "numeric (sedimentSupply start)"
  shows "interiorConsistent (initialGrid start)"
proof -
  have "1 < length (initialGrid start)" "gridSize - 2 < length (initialGrid start)"
    using gridSize_ge by (simp_all add: initialGrid_length)
  then have "bedConsistent (initialGrid start ! 1)" "bedConsistent (initialGrid start ! (gridSize - 2))"
    using initialGrid_consistent [OF assms] by (simp_all add: list_all_length)
  then show ?thesis
    unfolding interiorConsistent_def using initialGrid_interior by blast
qed

lemma frames_interiorConsistent:
  assumes "numeric (beachSlope start)" and "numeric (sedimentSupply start)"
  shows "\<exists>sim. frames ps (mount start) = Some sim \<and> length (grid sim) = gridSize \<and>
           interiorConsistent (grid sim)"
proof (rule frames_invariant [where Q = "\<lambda>_. True" and I = "\<lambda>s. interiorConsistent (grid s)"])
  show "list_all (\<lambda>_. True) ps"
    by (simp add: list_all_iff)
  show "length (grid (mount start)) = gridSize"
    by (simp add: mount_def initialGrid_length)
  show "interiorConsistent (grid (mount start))"
    using mount_interiorConsistent [OF assms] by (simp add: mount_def)
  show "interiorConsistent (grid (s\<lparr>timeRef := timeRef s + dt * simulationSpeed params,
          grid := stepGrid params (timeRef s + dt * simulationSpeed params) (grid s)\<rparr>))"
    if "length (grid s) = gridSize" and "interiorConsistent (grid s)" for params s
    using that stepGrid_interiorConsistent [of "grid s" params]
    by (simp add: interiorConsistent_def)
qed

text \<open>
  In the first frame with \<open>gapParams\<close>, cell 41 stays consistent, and cells 40 and 42,
  whose thickness has become \<open>NaN\<close>, are not.
\<close>

lemma gap_inconsistent:
  "\<not> bedConsistent (stepGrid gapParams gapTime (initialGrid gapParams) ! 40)"
  "\<not> bedConsistent (stepGrid gapParams gapTime (initialGrid gapParams) ! 42)"
  by (rule NaN_inconsistent, rule gap_bed, simp)+

section \<open>The claims\<close>

subsection \<open>C1\<close>

text \<open>
  C1 (the code at a failing input). With the slider parameters \<open>gapParams\<close> (tidal range
  3, tidal period 13, beach slope 0.09, grain size 0.3, wave height 1.3, wave period 9,
  speed 1.7, sediment supply 0.7) the freshly created grid satisfies the sediment caps,
  and the first frame of a run is the step on that grid at time 0.17. In the grid the
  step returns, the transport rate of cell 41 is \<open>NaN\<close>, which is not within
  \<open>[-0.02, 0.02]\<close>, and the sediment thickness of cells 40 and 42 is \<open>NaN\<close>, which is
  neither \<open>\<ge> 0\<close> nor \<open>\<le> 8\<close>: the shear stress of cell 41 lies between the critical
  stress and the critical stress plus 0.0001, where \<open>calculateSedimentTransport\<close> takes
  the power 1.5 of a negative number, and \<open>Math.max\<close> and \<open>Math.min\<close> pass the \<open>NaN\<close> on.
  (Lemma \<open>step_bounds\<close> has the bounds that hold on every well-formed grid.)
\<close>

theorem first_frame_breaks_bounds:
  "list_all (\<lambda>c. Num 0 \<le> sedimentThickness c \<and> sedimentThickness c \<le> regionCap (x c))
     (initialGrid gapParams) \<and>
   frames [gapParams] (mount gapParams) =
     Some \<lparr>isRunning = False, timeRef = Num 0.17,
           grid = the (updateSimulation gapParams (initialGrid gapParams) (Num 0.17))\<rparr> \<and>
   updateSimulation gapParams (initialGrid gapParams) (Num 0.17) \<noteq> None \<and>
   qs (the (updateSimulation gapParams (initialGrid gapParams) (Num 0.17)) ! 41) = NaN \<and>
   \<not> \<bar>qs (the (updateSimulation gapParams (initialGrid gapParams) (Num 0.17)) ! 41)\<bar> \<le> Num 0.02 \<and>
   sedimentThickness (the (updateSimulation gapParams (initialGrid gapParams) (Num 0.17)) ! 40) = NaN \<and>
   \<not> Num 0 \<le> sedimentThickness (the (updateSimulation gapParams (initialGrid gapParams) (Num 0.17)) ! 40) \<and>
   \<not> sedimentThickness (the (updateSimulation gapParams (initialGrid gapParams) (Num 0.17)) ! 40) \<le> Num 8.0 \<and>
   sedimentThickness (the (updateSimulation gapParams (initialGrid gapParams) (Num 0.17)) ! 42) = NaN"
proof -
  have len: "gridSize \<le> length (initialGrid gapParams)"
    by (simp add: initialGrid_length)
  have i: "41 < gridSize"
    by (simp add: gridSize_def)
  have rate: "qs (stepGrid gapParams gapTime (initialGrid gapParams) ! 41) = NaN"
    using len i by (simp add: stepGrid_frame gap_rate)
  show ?thesis
    using initialGrid_gap_caps gap_run rate gap_bed(1) [of 40] gap_bed(1) [of 42]
    unfolding gapTime_def [symmetric] by (simp add: gap_step)
qed

subsection \<open>C2\<close>

text \<open>
  C2 (amended). On a grid of \<open>gridSize\<close> points in which points 1 and \<open>gridSize - 2\<close>
  have \<open>zb == bedrockLevel + sedimentThickness\<close>, one step returns a grid in which these
  two points still have it, and so has every point of index 2 to \<open>gridSize - 3\<close> whose
  bedrock level plus sediment thickness is a number; the two boundary points receive the
  bed elevation of their neighbour, so that their \<open>zb\<close> equals the neighbour's bedrock
  level plus their own (copied) sediment thickness. The hypothesis holds of a freshly
  created grid (with a numeric beach slope and sediment supply) and of the grid that
  the step returns, so the same holds after every run from creation. A point whose
  sediment thickness the step has turned into \<open>NaN\<close> is not consistent (lemma
  \<open>gap_inconsistent\<close>: cells 40 and 42 in the first frame with \<open>gapParams\<close>); the
  statement says nothing about such points.
\<close>

theorem consistency_step:
  "(length g = gridSize \<and> bedConsistent (g ! 1) \<and> bedConsistent (g ! (gridSize - 2)) \<longrightarrow>
      (\<exists>g'. updateSimulation params g t = Some g' \<and>
         bedConsistent (g' ! 1) \<and> bedConsistent (g' ! (gridSize - 2)) \<and>
         (\<forall>i. 2 \<le> i \<and> i < gridSize - 2 \<and>
              numeric (bedrockLevel (g' ! i) + sedimentThickness (g' ! i)) \<longrightarrow>
              bedConsistent (g' ! i)) \<and>
         strictEquals (zb (g' ! 0)) (bedrockLevel (g' ! 1) + sedimentThickness (g' ! 0)) \<and>
         strictEquals (zb (g' ! (gridSize - 1)))
           (bedrockLevel (g' ! (gridSize - 2)) + sedimentThickness (g' ! (gridSize - 1))))) \<and>
   (numeric (beachSlope start) \<and> numeric (sedimentSupply start) \<longrightarrow>
      (\<exists>sim. frames ps (mount start) = Some sim \<and> interiorConsistent (grid sim) \<and>
         (ps \<noteq> [] \<longrightarrow> boundaryBed (grid sim))))"
proof (intro conjI impI)
  assume "length g = gridSize \<and> bedConsistent (g ! 1) \<and> bedConsistent (g ! (gridSize - 2))"
  then have len: "gridSize \<le> length g" and one: "bedConsistent (g ! 1)"
    and last: "bedConsistent (g ! (gridSize - 2))"
    by simp_all
  show "\<exists>g'. updateSimulation params g t = Some g' \<and>
         bedConsistent (g' ! 1) \<and> bedConsistent (g' ! (gridSize - 2)) \<and>
         (\<forall>i. 2 \<le> i \<and> i < gridSize - 2 \<and>
              numeric (bedrockLevel (g' ! i) + sedimentThickness (g' ! i)) \<longrightarrow>
              bedConsistent (g' ! i)) \<and>
         strictEquals (zb (g' ! 0)) (bedrockLevel (g' ! 1) + sedimentThickness (g' ! 0)) \<and>
         strictEquals (zb (g' ! (gridSize - 1)))
           (bedrockLevel (g' ! (gridSize - 2)) + sedimentThickness (g' ! (gridSize - 1)))"
    using updateSimulation_Some [OF len, of params t]
      stepGrid_interiorConsistent [OF len one last, of params t]
      stepGrid_boundaryBed [OF len one last, of params t]
    by (simp add: interiorConsistent_def boundaryBed_def)
next
  assume "numeric (beachSlope start) \<and> numeric (sedimentSupply start)"
  then have shape: "numeric (beachSlope start)" "numeric (sedimentSupply start)"
    by simp_all
  obtain sim where run: "frames ps (mount start) = Some sim"
    and len: "length (grid sim) = gridSize" and kept: "interiorConsistent (grid sim)"
    using frames_interiorConsistent [OF shape, of ps] by blast
  have edge: "boundaryBed (grid sim)" if nonempty: "ps \<noteq> []"
  proof -
    obtain front params where ps: "ps = front @ [params]"
      using nonempty by (cases ps rule: rev_cases) auto
    obtain mid where mid: "frames front (mount start) = Some mid"
      and mlen: "length (grid mid) = gridSize" and mkept: "interiorConsistent (grid mid)"
      using frames_interiorConsistent [OF shape, of front] by blast
    have "frames ps (mount start) = animate params mid"
      using mid by (simp add: ps frames_append split: option.splits)
    then have "grid sim = stepGrid params (timeRef mid + dt * simulationSpeed params) (grid mid)"
      using run mlen by (simp add: animate_Some)
    moreover have "gridSize \<le> length (grid mid)"
      using mlen by simp
    ultimately show ?thesis
      using mkept by (simp add: stepGrid_boundaryBed interiorConsistent_def)
  qed
  show "\<exists>sim. frames ps (mount start) = Some sim \<and> interiorConsistent (grid sim) \<and>
         (ps \<noteq> [] \<longrightarrow> boundaryBed (grid sim))"
    using run kept edge by blast
qed

text \<open>
  The hypotheses of C2 hold on the grid created with the slider parameters \<open>gapParams\<close>;
  the first frame changes the thickness of cell 41, which is consistent afterwards.
\<close>

theorem consistency_step_witness:
  "length (initialGrid gapParams) = gridSize \<and>
   bedConsistent (initialGrid gapParams ! 1) \<and>
   bedConsistent (initialGrid gapParams ! (gridSize - 2)) \<and>
   updateSimulation gapParams (initialGrid gapParams) (Num 0.17) \<noteq> None \<and>
   (2::nat) \<le> 41 \<and> 41 < gridSize - 2 \<and>
   numeric
     (bedrockLevel (the (updateSimulation gapParams (initialGrid gapParams) (Num 0.17)) ! 41) +
      sedimentThickness (the (updateSimulation gapParams (initialGrid gapParams) (Num 0.17)) ! 41)) \<and>
   bedConsistent (the (updateSimulation gapParams (initialGrid gapParams) (Num 0.17)) ! 41) \<and>
   numeric (beachSlope gapParams) \<and> numeric (sedimentSupply gapParams) \<and>
   frames [gapParams] (mount gapParams) \<noteq> None \<and> [gapParams] \<noteq> [] \<and>
   boundaryBed (grid (the (frames [gapParams] (mount gapParams))))"
proof -
  have shape: "numeric (beachSlope gapParams)" "numeric (sedimentSupply gapParams)"
    by (simp_all add: gapParams_def)
  have "1 < length (initialGrid gapParams)" "gridSize - 2 < length (initialGrid gapParams)"
    using gridSize_ge by (simp_all add: initialGrid_length)
  then have buffer: "bedConsistent (initialGrid gapParams ! 1)"
    "bedConsistent (initialGrid gapParams ! (gridSize - 2))"
    using initialGrid_consistent [OF shape] by (simp_all add: list_all_length)
  have i: "(2::nat) \<le> 41 \<and> 41 < gridSize - 2"
    by (simp add: gridSize_def)
  show ?thesis
    using consistency_step [where g = "initialGrid gapParams" and params = gapParams
        and t = gapTime and start = gapParams and ps = "[gapParams]"]
      buffer shape i gap_thickness
    unfolding gapTime_def [symmetric]
    by (auto simp add: initialGrid_length gap_step)
qed

text \<open>
  C2 as stated fails at the boundary: on the default initial grid, where every point has
  \<open>zb == bedrockLevel + sedimentThickness\<close>, point 0 has \<open>zb = -7.75\<close> after one step and
  \<open>bedrockLevel + sedimentThickness = -7.8\<close>.
\<close>

theorem consistency_boundary_counterexample:
  "list_all bedConsistent (initialGrid defaultParams) \<and>
   updateSimulation defaultParams (initialGrid defaultParams) (Num 0.1) \<noteq> None \<and>
   zb (the (updateSimulation defaultParams (initialGrid defaultParams) (Num 0.1)) ! 0) = Num (- 7.75) \<and>
   bedrockLevel (the (updateSimulation defaultParams (initialGrid defaultParams) (Num 0.1)) ! 0) +
   sedimentThickness (the (updateSimulation defaultParams (initialGrid defaultParams) (Num 0.1)) ! 0)
     = Num (- 7.8) \<and>
   \<not> bedConsistent (the (updateSimulation defaultParams (initialGrid defaultParams) (Num 0.1)) ! 0)"
proof -
  have len: "gridSize \<le> length (initialGrid defaultParams)"
    by (simp add: initialGrid_length)
  have shape: "numeric (beachSlope defaultParams)" "numeric (sedimentSupply defaultParams)"
    by (simp_all add: defaultParams_def)
  have "0 < gridSize"
    by (simp add: gridSize_def)
  then show ?thesis
    using stepGrid_boundary [OF len, of defaultParams "Num 0.1"]
      initialGrid_point0 initialGrid_point1
    by (simp add: updateSimulation_Some [OF len] initialGrid_consistent [OF shape]
        stepGrid_frame [OF len] bedConsistent_def)
qed

subsection \<open>C3\<close>

text \<open>
  C3. On a grid of \<open>gridSize\<close> points the step returns a grid in which every depth is
  \<open>max(0, tidalLevel + waveLevel - zb)\<close> for the bed elevation before the step; every
  interior point of index 1 to \<open>gridSize - 2\<close> with new depth above 0.05 has the clamped
  velocity of the momentum equation, computed from the new depths of its two neighbours
  and of itself and from its velocity before the step; an interior point with new depth
  \<open>\<le> 0.05\<close> has velocity 0; and both boundary points have velocity 0.
\<close>

theorem hydrodynamic_step:
  assumes "length g = gridSize"
  shows "\<exists>g'. updateSimulation params g t = Some g' \<and> length g' = gridSize \<and>
     (\<forall>i<gridSize. h (g' ! i) =
        Math_max (Num 0)
          (getTidalLevel params t + getWaveLevel params t (x (g ! i)) - zb (g ! i))) \<and>
     (\<forall>i. 1 \<le> i \<and> i < gridSize - 1 \<longrightarrow>
        (Num 0.05 < h (g' ! i) \<longrightarrow>
           u (g' ! i) =
             Math_max (Num (- 2.0)) (Math_min (Num 2.0)
               (u (g ! i) - dt *
                  (Num 9.81 * ((h (g' ! (i + 1)) - h (g' ! (i - 1))) / (Num 2 * dx)) +
                   Num 0.02 * u (g ! i) * \<bar>u (g ! i)\<bar> / (h (g' ! i) + Num 0.01) -
                   waveForce params t (x (g ! i)))))) \<and>
        (h (g' ! i) \<le> Num 0.05 \<longrightarrow> u (g' ! i) = Num 0)) \<and>
     u (g' ! 0) = Num 0 \<and> u (g' ! (gridSize - 1)) = Num 0"
proof -
  let ?s = "stepGrid params t g"
  have len: "gridSize \<le> length g"
    using assms by simp
  have depth: "h (?s ! i) =
        Math_max (Num 0)
          (getTidalLevel params t + getWaveLevel params t (x (g ! i)) - zb (g ! i))"
    if "i < gridSize" for i
    using that len by (simp add: stepGrid_frame hydroGrid_fields)
  have vel: "(Num 0.05 < h (?s ! i) \<longrightarrow>
           u (?s ! i) =
             Math_max (Num (- 2.0)) (Math_min (Num 2.0)
               (u (g ! i) - dt *
                  (Num 9.81 * ((h (?s ! (i + 1)) - h (?s ! (i - 1))) / (Num 2 * dx)) +
                   Num 0.02 * u (g ! i) * \<bar>u (g ! i)\<bar> / (h (?s ! i) + Num 0.01) -
                   waveForce params t (x (g ! i)))))) \<and>
        (h (?s ! i) \<le> Num 0.05 \<longrightarrow> u (?s ! i) = Num 0)"
    if "1 \<le> i" and "i < gridSize - 1" for i
  proof -
    have "i < gridSize" "i + 1 < gridSize" "i - 1 < gridSize"
      using that by auto
    then show ?thesis
      using len jsnum_le_not_less [of "h (hydroGrid params t g ! i)" "Num 0.05"]
      by (auto simp add: stepGrid_frame hydroGrid_fields(2) newVelocity_interior [OF len that])
  qed
  have idx: "0 < gridSize" "gridSize - 1 < gridSize"
    using gridSize_ge by auto
  have bnd: "u (?s ! 0) = Num 0" "u (?s ! (gridSize - 1)) = Num 0"
    using len idx by (simp_all add: stepGrid_frame hydroGrid_fields newVelocity_def)
  have "updateSimulation params g t = Some ?s" "length ?s = gridSize"
    using len assms by (simp_all add: updateSimulation_Some stepGrid_length)
  then show ?thesis
    using depth vel bnd by blast
qed

text \<open>The hypothesis of C3 holds on the default initial grid.\<close>

theorem hydrodynamic_step_witness:
  "length (initialGrid defaultParams) = gridSize \<and>
   updateSimulation defaultParams (initialGrid defaultParams) (Num 0.1) \<noteq> None \<and>
   u (the (updateSimulation defaultParams (initialGrid defaultParams) (Num 0.1)) ! 0) = Num 0"
  using hydrodynamic_step [OF initialGrid_length [of defaultParams],
      where params = defaultParams and t = "Num 0.1"]
  by (auto simp add: initialGrid_length)

subsection \<open>C4\<close>

text \<open>
  C4 (the code at a failing input). With the grain size 0.3 of \<open>gapParams\<close>, a velocity
  of -0.0038587, a depth of 4.1736 and a sediment thickness of 0.56, the three conditions
  of the guard hold (the shear stress exceeds the critical one, the depth exceeds 0.01
  and the thickness 0.001), and \<open>calculateSedimentTransport\<close> returns \<open>NaN\<close>, not a rate
  clamped to \<open>[-0.02, 0.02]\<close>. These values are, up to rounding, the ones of the call for
  cell 41 in the first frame of a run with \<open>gapParams\<close>, and that call returns \<open>NaN\<close> too.
  (Lemma \<open>calculateSedimentTransport_Num\<close> has the value of the function at all numbers.)
\<close>

theorem transport_in_gap:
  "Num 0.03 * (Num 2650 - Num 1000) * Num 9.81 * (grainSize gapParams / Num 1000) <
     \<bar>Num 1000 * Num 9.81 * Num 4.1736 * \<bar>Num (- 0.0038587)\<bar> * Num (- 0.0038587) /
      (Num 4.1736 + Num 0.01)\<bar> \<and>
   Num 0.01 < Num 4.1736 \<and> Num 0.001 < Num 0.56 \<and>
   calculateSedimentTransport gapParams (Num (- 0.0038587)) (Num 4.1736) (Num 0.56) = NaN \<and>
   \<not> (Num (- 0.02) \<le> calculateSedimentTransport gapParams (Num (- 0.0038587)) (Num 4.1736) (Num 0.56) \<and>
      calculateSedimentTransport gapParams (Num (- 0.0038587)) (Num 4.1736) (Num 0.56) \<le> Num 0.02) \<and>
   calculateSedimentTransport gapParams
     (u (the (updateSimulation gapParams (initialGrid gapParams) (Num 0.17)) ! 41))
     (h (the (updateSimulation gapParams (initialGrid gapParams) (Num 0.17)) ! 41))
     (sedimentThickness (initialGrid gapParams ! 41)) = NaN"
proof -
  have len: "gridSize \<le> length (initialGrid gapParams)"
    by (simp add: initialGrid_length)
  have i: "41 < gridSize"
    by (simp add: gridSize_def)
  have shear: "0.03 * 1650 * 9.81 * (0.3 / 1000) <
      \<bar>1000 * 9.81 * 4.1736 * \<bar>- 0.0038587\<bar> * (- 0.0038587) / (4.1736 + 0.01 :: real)\<bar>"
    "\<bar>1000 * 9.81 * 4.1736 * \<bar>- 0.0038587\<bar> * (- 0.0038587) / (4.1736 + 0.01 :: real)\<bar> <
      0.03 * 1650 * 9.81 * (0.3 / 1000) + 0.0001"
    by (rule gap_shear_bounds; simp)+
  have guard: "Num 0.03 * (Num 2650 - Num 1000) * Num 9.81 * (grainSize gapParams / Num 1000) <
     \<bar>Num 1000 * Num 9.81 * Num 4.1736 * \<bar>Num (- 0.0038587)\<bar> * Num (- 0.0038587) /
      (Num 4.1736 + Num 0.01)\<bar>"
    using shear(1) by (simp add: gapParams_fields)
  have result: "calculateSedimentTransport gapParams (Num (- 0.0038587)) (Num 4.1736) (Num 0.56) = NaN"
    using shear
    by (simp add: calculateSedimentTransport_Num [OF gapParams_fields(1)] transportActive_def
        shearInGap_def)
  have call: "calculateSedimentTransport gapParams
      (u (stepGrid gapParams gapTime (initialGrid gapParams) ! 41))
      (h (stepGrid gapParams gapTime (initialGrid gapParams) ! 41))
      (sedimentThickness (initialGrid gapParams ! 41)) = NaN"
    using len i gap_rate by (simp add: stepGrid_frame hydroGrid_fields)
  show ?thesis
    using guard call unfolding result gapTime_def [symmetric] by (simp add: gap_step)
qed

subsection \<open>C5\<close>

text \<open>
  C5. On a grid of \<open>gridSize\<close> points and for an index \<open>i\<close> from 2 to \<open>gridSize - 3\<close>,
  the step returns a grid whose transport rates are the ones computed in this step (from
  the new velocity and depth and the old thickness of each point), in which the bed
  change of point \<open>i\<close> is the clamped Exner update from the new rates of its two
  neighbours, its sediment thickness is the old one plus the bed change, floored at 0
  and capped at 8 where \<open>x < 300\<close> and at 12 elsewhere, and its bed elevation is the
  bedrock level plus that thickness.
\<close>

theorem morphodynamic_step:
  assumes "length g = gridSize" and "2 \<le> i" and "i < gridSize - 2"
  shows "\<exists>g'. updateSimulation params g t = Some g' \<and>
     (\<forall>j<gridSize. qs (g' ! j) =
        calculateSedimentTransport params (u (g' ! j)) (h (g' ! j)) (sedimentThickness (g ! j))) \<and>
     (let bedChange =
            Math_max (Num (- 0.1)) (Math_min (Num 0.1)
              (- ((qs (g' ! (i + 1)) - qs (g' ! (i - 1))) / (Num 2 * dx)) / (Num 1 - Num 0.2) *
               dt * simulationSpeed params * Num 10.0))
      in sedimentThickness (g' ! i) =
           Math_min (regionCap (x (g ! i)))
             (Math_max (Num 0) (sedimentThickness (g ! i) + bedChange)) \<and>
         zb (g' ! i) = bedrockLevel (g ! i) + sedimentThickness (g' ! i))"
proof -
  let ?s = "stepGrid params t g"
  let ?hg = "hydroGrid params t g"
  have len: "gridSize \<le> length g"
    using assms by simp
  have i: "i < gridSize" "i + 1 < gridSize" "i - 1 < gridSize"
    using assms by auto
  have fresh: "qs (?s ! j) =
        calculateSedimentTransport params (u (?s ! j)) (h (?s ! j)) (sedimentThickness (g ! j))"
    if "j < gridSize" for j
    using that len by (simp add: stepGrid_frame hydroGrid_fields)
  have change: "bedChangeAt params ?hg i =
            Math_max (Num (- 0.1)) (Math_min (Num 0.1)
              (- ((qs (?s ! (i + 1)) - qs (?s ! (i - 1))) / (Num 2 * dx)) / (Num 1 - Num 0.2) *
               dt * simulationSpeed params * Num 10.0))"
    using len i by (simp add: bedChangeAt_def stepGrid_frame)
  have point: "?s ! i = bedPoint (bedChangeAt params ?hg i) (?hg ! i)"
    using len assms by (simp add: stepGrid_interior)
  have thick: "sedimentThickness (?s ! i) =
           Math_min (regionCap (x (g ! i)))
             (Math_max (Num 0) (sedimentThickness (g ! i) +
                Math_max (Num (- 0.1)) (Math_min (Num 0.1)
                  (- ((qs (?s ! (i + 1)) - qs (?s ! (i - 1))) / (Num 2 * dx)) /
                   (Num 1 - Num 0.2) * dt * simulationSpeed params * Num 10.0))))"
    unfolding change [symmetric] point
    using len i by (simp add: bedPoint_fields hydroGrid_frame)
  have bed: "zb (?s ! i) = bedrockLevel (g ! i) + sedimentThickness (?s ! i)"
    unfolding point using len i by (simp add: bedPoint_fields hydroGrid_frame)
  have run: "updateSimulation params g t = Some ?s"
    using len by (rule updateSimulation_Some)
  show ?thesis
    unfolding Let_def
  proof (intro exI conjI allI impI)
    show "updateSimulation params g t = Some ?s"
      by (rule run)
    show "qs (?s ! j) =
        calculateSedimentTransport params (u (?s ! j)) (h (?s ! j)) (sedimentThickness (g ! j))"
      if "j < gridSize" for j
      using that by (rule fresh)
    show "sedimentThickness (?s ! i) =
           Math_min (regionCap (x (g ! i)))
             (Math_max (Num 0) (sedimentThickness (g ! i) +
                Math_max (Num (- 0.1)) (Math_min (Num 0.1)
                  (- ((qs (?s ! (i + 1)) - qs (?s ! (i - 1))) / (Num 2 * dx)) /
                   (Num 1 - Num 0.2) * dt * simulationSpeed params * Num 10.0))))"
      by (rule thick)
    show "zb (?s ! i) = bedrockLevel (g ! i) + sedimentThickness (?s ! i)"
      by (rule bed)
  qed
qed

text \<open>The hypotheses of C5 hold at point 2 of the default initial grid.\<close>

theorem morphodynamic_step_witness:
  "length (initialGrid defaultParams) = gridSize \<and> (2::nat) \<le> 2 \<and> 2 < gridSize - 2 \<and>
   zb (the (updateSimulation defaultParams (initialGrid defaultParams) (Num 0.1)) ! 2) =
   bedrockLevel (initialGrid defaultParams ! 2) +
   sedimentThickness (the (updateSimulation defaultParams (initialGrid defaultParams) (Num 0.1)) ! 2)"
proof -
  have i: "(2::nat) \<le> 2" "2 < gridSize - 2"
    by (simp_all add: gridSize_def)
  show ?thesis
    using i morphodynamic_step [OF initialGrid_length [of defaultParams] i,
      where params = defaultParams and t = "Num 0.1"]
    by (auto simp add: initialGrid_length Let_def)
qed

subsection \<open>C6\<close>

text \<open>
  C6. After a step on a grid of \<open>gridSize\<close> points, points 0 and \<open>gridSize - 1\<close> have the
  sediment thickness and the bed elevation of points 1 and \<open>gridSize - 2\<close>, and velocity 0.
\<close>

theorem boundary_mirroring:
  assumes "length g = gridSize"
  shows "\<exists>g'. updateSimulation params g t = Some g' \<and>
           sedimentThickness (g' ! 0) = sedimentThickness (g' ! 1) \<and>
           zb (g' ! 0) = zb (g' ! 1) \<and>
           sedimentThickness (g' ! (gridSize - 1)) = sedimentThickness (g' ! (gridSize - 2)) \<and>
           zb (g' ! (gridSize - 1)) = zb (g' ! (gridSize - 2)) \<and>
           u (g' ! 0) = Num 0 \<and> u (g' ! (gridSize - 1)) = Num 0"
proof -
  have len: "gridSize \<le> length g"
    using assms by simp
  have idx: "0 < gridSize" "gridSize - 1 < gridSize" "1 < gridSize" "gridSize - 2 < gridSize"
    using gridSize_ge by auto
  have buf: "stepGrid params t g ! 1 = hydroGrid params t g ! 1"
    "stepGrid params t g ! (gridSize - 2) = hydroGrid params t g ! (gridSize - 2)"
    using len by (simp_all add: stepGrid_buffer)
  have "u (stepGrid params t g ! 0) = Num 0" "u (stepGrid params t g ! (gridSize - 1)) = Num 0"
    using len idx by (simp_all add: stepGrid_frame hydroGrid_fields newVelocity_def)
  then show ?thesis
    using len idx buf stepGrid_boundary [OF len, of params t]
    by (simp add: updateSimulation_Some hydroGrid_frame)
qed

text \<open>The hypothesis of C6 holds on the default initial grid.\<close>

theorem boundary_mirroring_witness:
  "length (initialGrid defaultParams) = gridSize \<and>
   updateSimulation defaultParams (initialGrid defaultParams) (Num 0.1) \<noteq> None \<and>
   zb (the (updateSimulation defaultParams (initialGrid defaultParams) (Num 0.1)) ! 0) =
   zb (the (updateSimulation defaultParams (initialGrid defaultParams) (Num 0.1)) ! 1)"
  using boundary_mirroring [OF initialGrid_length [of defaultParams],
      where params = defaultParams and t = "Num 0.1"]
  by (auto simp add: initialGrid_length)

subsection \<open>C7\<close>

text \<open>
  C7 (amended). With wave height 0 and tidal range 0 (and numeric, non-zero periods and a
  numeric speed) in every frame, a run from a freshly created grid has a result, and
  after its last frame every cell has the depth \<open>max(0, - zb)\<close> for the bed elevation
  \<open>zb\<close> it had before that frame: the still water stands at level 0, so the depth is 0
  where the bed was at or above 0 and \<open>- zb\<close> where it was below. Nothing is said about
  \<open>cumulativeChange\<close>.
\<close>

theorem still_water_depth:
  assumes "list_all stillWater (ps @ [params])"
  shows "\<exists>sim sim'. frames ps (mount start) = Some sim \<and>
     frames (ps @ [params]) (mount start) = Some sim' \<and>
     (\<forall>k<gridSize.
        h (grid sim' ! k) = Math_max (Num 0) (- zb (grid sim ! k)) \<and>
        (Num 0 \<le> zb (grid sim ! k) \<longrightarrow> h (grid sim' ! k) = Num 0) \<and>
        (zb (grid sim ! k) < Num 0 \<longrightarrow> h (grid sim' ! k) = - zb (grid sim ! k)))"
proof -
  have still: "list_all stillWater ps" "stillWater params"
    using assms by simp_all
  obtain sim where run: "frames ps (mount start) = Some sim"
    and len: "length (grid sim) = gridSize" and pos: "positioned sim"
    using frames_invariant [where sim = "mount start" and I = positioned and Q = stillWater
        and ps = ps] still(1) mount_positioned stillWater_positioned
    by (auto simp add: mount_def initialGrid_length)
  let ?t = "timeRef sim + dt * simulationSpeed params"
  let ?next = "sim\<lparr>timeRef := ?t, grid := stepGrid params ?t (grid sim)\<rparr>"
  obtain t where t: "?t = Num t"
    using stillWater_positioned [OF still(2) len pos]
    by (auto simp add: positioned_def numeric_iff)
  have "frames (ps @ [params]) (mount start) = Some ?next"
    using run len by (simp add: frames_append animate_Some)
  moreover have "h (grid ?next ! k) = Math_max (Num 0) (- zb (grid sim ! k)) \<and>
        (Num 0 \<le> zb (grid sim ! k) \<longrightarrow> h (grid ?next ! k) = Num 0) \<and>
        (zb (grid sim ! k) < Num 0 \<longrightarrow> h (grid ?next ! k) = - zb (grid sim ! k))"
    if k: "k < gridSize" for k
  proof -
    have "h (grid ?next ! k) = Math_max (Num 0) (- zb (grid sim ! k))"
      using k len positioned_nth [OF pos len k]
      by (simp add: stepGrid_frame t stillWater_depth [OF still(2)])
    then show ?thesis
      by (simp add: still_depth_cases)
  qed
  ultimately show ?thesis
    using run by blast
qed

text \<open>The hypothesis of C7 holds for one frame with the still-water parameters.\<close>

theorem still_water_depth_witness:
  "list_all stillWater ([] @ [stillWaterParams]) \<and>
   frames ([] @ [stillWaterParams]) (mount stillWaterParams) \<noteq> None \<and>
   h (grid (the (frames ([] @ [stillWaterParams]) (mount stillWaterParams))) ! 0) =
     Math_max (Num 0) (- zb (initialGrid stillWaterParams ! 0))"
proof -
  have still: "list_all stillWater ([] @ [stillWaterParams])"
    by (simp add: stillWaterParams_still)
  have "0 < gridSize"
    by (simp add: gridSize_def)
  then show ?thesis
    using still still_water_depth [OF still, where start = stillWaterParams]
    by (auto simp add: mount_def)
qed

text \<open>
  C7 as stated fails: with the default parameters but wave height 0 and tidal range 0,
  after one frame from the fresh grid cell 0 lies 7.8 m under water, and cell 77, the
  first dry cell of the beach face, has received sediment from its wet neighbour, so
  that its \<open>cumulativeChange\<close> is positive.
\<close>

theorem still_water_counterexample:
  "waveHeight stillWaterParams = Num 0 \<and> tidalRange stillWaterParams = Num 0 \<and>
   frames [stillWaterParams] (mount stillWaterParams) \<noteq> None \<and>
   h (grid (the (frames [stillWaterParams] (mount stillWaterParams))) ! 0) = Num 7.8 \<and>
   Num 0 < cumulativeChange (grid (the (frames [stillWaterParams] (mount stillWaterParams))) ! 77)"
proof -
  have len: "gridSize \<le> length (initialGrid defaultParams)"
    by (simp add: initialGrid_length)
  have "0 < gridSize"
    by (simp add: gridSize_def)
  then show ?thesis
    using shore_deposit
    by (simp add: mount_def animate_Some initialGrid_length stillWater_grid dt_def
        stillWaterParams_fields stepGrid_frame [OF len] shore_depths)
      (simp add: stillWaterParams_def)
qed

subsection \<open>C8\<close>

text \<open>
  C8 (what the step does to the cumulative change). On a grid of \<open>gridSize\<close> points and
  for an index \<open>i\<close> from 2 to \<open>gridSize - 3\<close>, the step adds to \<open>cumulativeChange\<close> the
  difference between the floored new thickness \<open>max(0, old + bedChange)\<close> and the old
  thickness, and stores as the sediment thickness the floored new thickness cut back to
  the region cap; \<open>initialSedimentThickness\<close> stays. So in a step in which deposition
  lifts a point above its cap, \<open>cumulativeChange\<close> grows by more than the sediment
  thickness does, and \<open>cumulativeChange = sedimentThickness - initialSedimentThickness\<close>
  is lost from then on. (No such step is evaluated here: a fresh grid lies far below the
  caps, and in a floating-point computation of the run with the default parameters and
  the grain size 2.0, cell 57 reaches its cap after about 1500 frames.) The equation is
  also lost at a point whose bed change is \<open>NaN\<close>.
\<close>

theorem cumulative_change_step:
  assumes "length g = gridSize" and "2 \<le> i" and "i < gridSize - 2"
  shows "\<exists>g'. updateSimulation params g t = Some g' \<and>
     (let bedChange =
            Math_max (Num (- 0.1)) (Math_min (Num 0.1)
              (- ((qs (g' ! (i + 1)) - qs (g' ! (i - 1))) / (Num 2 * dx)) / (Num 1 - Num 0.2) *
               dt * simulationSpeed params * Num 10.0));
          newSedimentThickness = Math_max (Num 0) (sedimentThickness (g ! i) + bedChange)
      in cumulativeChange (g' ! i) =
           cumulativeChange (g ! i) + (newSedimentThickness - sedimentThickness (g ! i)) \<and>
         sedimentThickness (g' ! i) = Math_min (regionCap (x (g ! i))) newSedimentThickness \<and>
         initialSedimentThickness (g' ! i) = initialSedimentThickness (g ! i))"
proof -
  let ?s = "stepGrid params t g"
  let ?hg = "hydroGrid params t g"
  have len: "gridSize \<le> length g"
    using assms by simp
  have i: "i < gridSize" "i + 1 < gridSize" "i - 1 < gridSize"
    using assms by auto
  have change: "bedChangeAt params ?hg i =
            Math_max (Num (- 0.1)) (Math_min (Num 0.1)
              (- ((qs (?s ! (i + 1)) - qs (?s ! (i - 1))) / (Num 2 * dx)) / (Num 1 - Num 0.2) *
               dt * simulationSpeed params * Num 10.0))"
    using len i by (simp add: bedChangeAt_def stepGrid_frame)
  have point: "?s ! i = bedPoint (bedChangeAt params ?hg i) (?hg ! i)"
    using len assms by (simp add: stepGrid_interior)
  have "cumulativeChange (?s ! i) =
      cumulativeChange (g ! i) +
        (Math_max (Num 0) (sedimentThickness (g ! i) + bedChangeAt params ?hg i) -
         sedimentThickness (g ! i))"
    and "sedimentThickness (?s ! i) =
      Math_min (regionCap (x (g ! i)))
        (Math_max (Num 0) (sedimentThickness (g ! i) + bedChangeAt params ?hg i))"
    and "initialSedimentThickness (?s ! i) = initialSedimentThickness (g ! i)"
    unfolding point using len i by (simp_all add: bedPoint_fields bedPoint_frame hydroGrid_frame)
  then show ?thesis
    unfolding change Let_def using updateSimulation_Some [OF len, of params t] by simp
qed

text \<open>
  The hypotheses of C8 hold at cell 40 of the grid created with the slider parameters
  \<open>gapParams\<close>. The first frame leaves the initial thickness of the cell at 0.56 and
  turns its sediment thickness and its cumulative change into \<open>NaN\<close> (the rate of cell 41
  is \<open>NaN\<close> in that frame), so that \<open>cumulativeChange == sedimentThickness -
  initialSedimentThickness\<close> is false of the cell after the frame.
\<close>

theorem cumulative_change_step_witness:
  "length (initialGrid gapParams) = gridSize \<and> (2::nat) \<le> 40 \<and> 40 < gridSize - 2 \<and>
   updateSimulation gapParams (initialGrid gapParams) (Num 0.17) \<noteq> None \<and>
   initialSedimentThickness
     (the (updateSimulation gapParams (initialGrid gapParams) (Num 0.17)) ! 40) = Num 0.56 \<and>
   sedimentThickness
     (the (updateSimulation gapParams (initialGrid gapParams) (Num 0.17)) ! 40) = NaN \<and>
   cumulativeChange
     (the (updateSimulation gapParams (initialGrid gapParams) (Num 0.17)) ! 40) = NaN \<and>
   \<not> strictEquals
       (cumulativeChange (the (updateSimulation gapParams (initialGrid gapParams) (Num 0.17)) ! 40))
       (sedimentThickness (the (updateSimulation gapParams (initialGrid gapParams) (Num 0.17)) ! 40) -
        initialSedimentThickness
          (the (updateSimulation gapParams (initialGrid gapParams) (Num 0.17)) ! 40))"
proof -
  have i: "(2::nat) \<le> 40" "40 < gridSize - 2"
    by (simp_all add: gridSize_def)
  show ?thesis
    using i cumulative_change_step [OF initialGrid_length [of gapParams] i,
      where params = gapParams and t = gapTime] gap_bed [of 40] initialGrid_gap(2)
    unfolding gapTime_def [symmetric]
    by (auto simp add: initialGrid_length gap_step Let_def strictEquals_NaN)
qed

subsection \<open>C9\<close>

text \<open>
  C9. A reset right after creation gives the simulation as it was mounted: the same grid,
  point by point and field by field, time 0, paused. A reset in any state gives the
  freshly created grid of the current shape parameters, with \<open>cumulativeChange = 0\<close> at
  every point, and time 0.
\<close>

theorem reset_after_creation:
  "resetSimulation params (mount params) = mount params \<and>
   grid (resetSimulation params sim) = initialGrid params \<and>
   timeRef (resetSimulation params sim) = Num 0 \<and>
   list_all (\<lambda>c. cumulativeChange c = Num 0) (grid (resetSimulation params sim))"
proof -
  have same: "grid (resetSimulation params sim) = initialGrid params" for sim
    by (simp add: resetSimulation_def initialGrid_def Let_def)
  have "list_all (\<lambda>c. cumulativeChange c = Num 0) (initialGrid params)"
    by (simp add: initialGrid_map list_all_iff makePoint_fields)
  then show ?thesis
    using same by (simp add: resetSimulation_def mount_def Let_def)
qed

subsection \<open>C10\<close>

text \<open>
  C10 (amended). A step on a grid of \<open>gridSize\<close> points leaves the sediment thickness, the
  bed elevation and the cumulative change of points 1 and \<open>gridSize - 2\<close> as they were,
  copies their thickness and bed elevation into points 0 and \<open>gridSize - 1\<close>, and leaves
  the cumulative change of these as it was. So after any run from creation points 1 and
  \<open>gridSize - 2\<close> have their creation-time thickness and bed elevation, the four points
  have cumulative change 0, and the boundary points have their creation-time thickness;
  but once a frame has run, the bed elevation of point 0 is the creation-time bed
  elevation of point 1, and that of point \<open>gridSize - 1\<close> is the one of point
  \<open>gridSize - 2\<close>.
\<close>

theorem buffer_cells_frame:
  "(length g = gridSize \<longrightarrow>
      (\<exists>g'. updateSimulation params g t = Some g' \<and> bufferKept g g' \<and> boundaryCopied g g')) \<and>
   (\<exists>sim. frames ps (mount start) = Some sim \<and>
      bufferKept (initialGrid start) (grid sim) \<and>
      cumulativeChange (grid sim ! 1) = Num 0 \<and>
      cumulativeChange (grid sim ! (gridSize - 2)) = Num 0 \<and>
      sedimentThickness (grid sim ! 0) = sedimentThickness (initialGrid start ! 0) \<and>
      cumulativeChange (grid sim ! 0) = Num 0 \<and>
      sedimentThickness (grid sim ! (gridSize - 1)) =
        sedimentThickness (initialGrid start ! (gridSize - 1)) \<and>
      cumulativeChange (grid sim ! (gridSize - 1)) = Num 0 \<and>
      (ps \<noteq> [] \<longrightarrow>
         zb (grid sim ! 0) = zb (initialGrid start ! 1) \<and>
         zb (grid sim ! (gridSize - 1)) = zb (initialGrid start ! (gridSize - 2))))"
proof (intro conjI impI)
  assume "length g = gridSize"
  then have len: "gridSize \<le> length g"
    by simp
  show "\<exists>g'. updateSimulation params g t = Some g' \<and> bufferKept g g' \<and> boundaryCopied g g'"
    using updateSimulation_Some [OF len] stepGrid_bufferKept [OF len]
      stepGrid_boundaryCopied [OF len]
    by simp
next
  let ?g0 = "initialGrid start"
  have idx: "0 < gridSize" "1 < gridSize" "gridSize - 2 < gridSize" "gridSize - 1 < gridSize"
    using gridSize_ge by auto
  obtain sim where run: "frames ps (mount start) = Some sim"
    and len: "length (grid sim) = gridSize" and kept: "edgeKept ?g0 (grid sim)"
    using frames_edgeKept [OF initialGrid_length [of start]
        initialGrid_boundary_thickness [of start], where ps = ps]
    unfolding mount_def by blast
  have last: "zb (grid sim ! 0) = zb (?g0 ! 1) \<and>
      zb (grid sim ! (gridSize - 1)) = zb (?g0 ! (gridSize - 2))" if nonempty: "ps \<noteq> []"
  proof -
    obtain front params where ps: "ps = front @ [params]"
      using nonempty by (cases ps rule: rev_cases) auto
    obtain mid where mid: "frames front (mount start) = Some mid"
      and mlen: "length (grid mid) = gridSize" and mkept: "edgeKept ?g0 (grid mid)"
      using frames_edgeKept [OF initialGrid_length [of start]
          initialGrid_boundary_thickness [of start], where ps = front]
      unfolding mount_def by blast
    have "frames ps (mount start) = animate params mid"
      using mid by (simp add: ps frames_append split: option.splits)
    then have "grid sim = stepGrid params (timeRef mid + dt * simulationSpeed params) (grid mid)"
      using run mlen by (simp add: animate_Some)
    moreover have "gridSize \<le> length (grid mid)"
      using mlen by simp
    ultimately show ?thesis
      using stepGrid_boundaryCopied [of "grid mid"] mkept
      by (simp add: boundaryCopied_def edgeKept_def bufferKept_def)
  qed
  show "\<exists>sim. frames ps (mount start) = Some sim \<and>
      bufferKept (initialGrid start) (grid sim) \<and>
      cumulativeChange (grid sim ! 1) = Num 0 \<and>
      cumulativeChange (grid sim ! (gridSize - 2)) = Num 0 \<and>
      sedimentThickness (grid sim ! 0) = sedimentThickness (initialGrid start ! 0) \<and>
      cumulativeChange (grid sim ! 0) = Num 0 \<and>
      sedimentThickness (grid sim ! (gridSize - 1)) =
        sedimentThickness (initialGrid start ! (gridSize - 1)) \<and>
      cumulativeChange (grid sim ! (gridSize - 1)) = Num 0 \<and>
      (ps \<noteq> [] \<longrightarrow>
         zb (grid sim ! 0) = zb (initialGrid start ! 1) \<and>
         zb (grid sim ! (gridSize - 1)) = zb (initialGrid start ! (gridSize - 2)))"
    using run kept last idx initialGrid_boundary_thickness [of start]
      initialGrid_cumulativeChange [of _ start]
    by (simp add: edgeKept_def bufferKept_def)
qed

text \<open>The hypotheses of C10 hold for one frame from the default initial grid.\<close>

theorem buffer_cells_frame_witness:
  "length (initialGrid defaultParams) = gridSize \<and>
   updateSimulation defaultParams (initialGrid defaultParams) (Num 0.1) \<noteq> None \<and>
   bufferKept (initialGrid defaultParams)
     (the (updateSimulation defaultParams (initialGrid defaultParams) (Num 0.1))) \<and>
   frames [defaultParams] (mount defaultParams) \<noteq> None \<and>
   [defaultParams] \<noteq> [] \<and>
   zb (grid (the (frames [defaultParams] (mount defaultParams))) ! 0) =
     zb (initialGrid defaultParams ! 1)"
  using buffer_cells_frame [where g = "initialGrid defaultParams" and params = defaultParams
      and t = "Num 0.1" and ps = "[defaultParams]" and start = defaultParams]
  by (auto simp add: initialGrid_length)

text \<open>
  C10 as stated fails for the bed elevation of a boundary point: point 0 of the default
  grid is created with \<open>zb = -7.8\<close> and has \<open>zb = -7.75\<close> after one frame.
\<close>

theorem boundary_bed_counterexample:
  "frames [defaultParams] (mount defaultParams) \<noteq> None \<and>
   zb (initialGrid defaultParams ! 0) = Num (- 7.8) \<and>
   zb (grid (the (frames [defaultParams] (mount defaultParams))) ! 0) = Num (- 7.75)"
proof -
  have len: "gridSize \<le> length (initialGrid defaultParams)"
    by (simp add: initialGrid_length)
  show ?thesis
    using stepGrid_boundary(2) [OF len] initialGrid_point0 initialGrid_point1
    by (simp add: mount_def animate_Some initialGrid_length)
qed

end
